theory Spec2Isabelle
  imports Complex_Main "HOL-Library.Extended_Nat" "HOL-Library.Sublist"
begin

section \<open>Shared types (types.ts)\<close>

text \<open>
  The interfaces of \<^verbatim>\<open>types.ts\<close>. Field names carry a prefix where the plain name is a
  constant of HOL (\<open>id\<close>) or would capture a variable name (\<open>x\<close>, \<open>y\<close>). The numbers of
  a \<open>FlowNode\<close> are results of \<^verbatim>\<open>Math.round\<close> and therefore integers.
\<close>

record FlowNode =
  node_id :: string
  node_name :: string
  node_width :: int
  node_height :: int

record FlowEdge =
  sourceId :: string
  targetId :: string
  trigger :: string
  action :: string

record FlowGraph =
  nodes :: "FlowNode list"
  edges :: "FlowEdge list"
  startingPointIds :: "string list"

section \<open>The host's scene tree\<close>

text \<open>
  What \<^verbatim>\<open>findTopFrame\<close> reads of an element: its own identity, type and size, and the
  chain of its parents. The chain is finite, as the host's ancestor chains are.
\<close>

datatype BaseNode =
  BaseNode (bn_id: string) (bn_name: string) (bn_type: string)
           (bn_width: real) (bn_height: real) (bn_parent: "BaseNode option")

text \<open>
  A reaction of the host: \<open>r_trigger\<close> is \<^verbatim>\<open>reaction.trigger?.type\<close>, \<open>r_action\<close> is
  \<^verbatim>\<open>reaction.action\<close>; \<open>None\<close> stands for a missing (null or undefined) value.
\<close>

datatype Action = Action (a_type: "string option") (a_destinationId: "string option")

datatype Reaction = Reaction (r_trigger: "string option") (r_action: "Action option")

text \<open>
  An element as \<^verbatim>\<open>walkNode\<close> reads it: \<open>sn_reactions\<close> is \<open>None\<close> when the element has
  no (truthy) \<^verbatim>\<open>reactions\<close> property, \<open>sn_children\<close> is \<open>None\<close> when it has no
  \<^verbatim>\<open>children\<close> property.
\<close>

datatype SceneNode =
  SceneNode (sn_base: BaseNode) (sn_reactions: "Reaction list option")
            (sn_children: "SceneNode list option")

record Page =
  page_children :: "SceneNode list"
  flowStartingPoints :: "string list option"

section \<open>Prototype connection scanner (code.ts)\<close>

text \<open>\<^verbatim>\<open>Math.round\<close>: the nearest integer, a tie going towards plus infinity.\<close>

definition Math_round :: "real \<Rightarrow> int" where
  "Math_round v = \<lfloor>v + 1 / 2\<rfloor>"

text \<open>\<^verbatim>\<open>s || d\<close> on an optional string: a missing or empty string is falsy.\<close>

definition or_default :: "string option \<Rightarrow> string \<Rightarrow> string" where
  "or_default s d = (case s of None \<Rightarrow> d | Some v \<Rightarrow> if v = [] then d else v)"

definition frame_like :: "string \<Rightarrow> bool" where
  "frame_like t = (t = ''FRAME'' \<or> t = ''COMPONENT'' \<or> t = ''COMPONENT_SET'')"

fun findTopFrame :: "BaseNode \<Rightarrow> BaseNode option" where
  "findTopFrame (BaseNode i n t w h None) = None"
| "findTopFrame (BaseNode i n t w h (Some p)) =
     (if bn_type p = ''PAGE''
      then (if frame_like t then Some (BaseNode i n t w h (Some p)) else None)
      else findTopFrame p)"

text \<open>
  \<open>nodeMap\<close> is a JavaScript \<open>Map\<close>: its entries are kept in insertion order, and
  \<^verbatim>\<open>set\<close> is only ever called for a key that \<^verbatim>\<open>has\<close> reports absent.
\<close>

type_synonym nodeMap = "(string \<times> FlowNode) list"

definition has :: "nodeMap \<Rightarrow> string \<Rightarrow> bool" where
  "has m k = (k \<in> set (map fst m))"

definition toFlowNode :: "BaseNode \<Rightarrow> FlowNode" where
  "toFlowNode f = \<lparr>node_id = bn_id f, node_name = bn_name f,
                   node_width = Math_round (bn_width f),
                   node_height = Math_round (bn_height f)\<rparr>"

definition registerNode :: "nodeMap \<Rightarrow> BaseNode \<Rightarrow> nodeMap" where
  "registerNode m f = (if has m (bn_id f) then m else m @ [(bn_id f, toFlowNode f)])"

type_synonym scan_state = "nodeMap \<times> FlowEdge list"

text \<open>The body of the loop over the reactions of one element.\<close>

definition processReaction ::
  "(string \<Rightarrow> BaseNode option) \<Rightarrow> BaseNode \<Rightarrow> Reaction \<Rightarrow> scan_state \<Rightarrow> scan_state" where
  "processReaction getNodeById node reaction st =
     (case r_action reaction of
        None \<Rightarrow> st
      | Some act \<Rightarrow>
          (case a_destinationId act of
             None \<Rightarrow> st
           | Some dest \<Rightarrow>
               if dest = [] then st
               else
                 (case (findTopFrame node,
                        (case getNodeById dest of None \<Rightarrow> None | Some dn \<Rightarrow> findTopFrame dn)) of
                    (Some sourceFrame, Some destFrame) \<Rightarrow>
                      if bn_id sourceFrame \<noteq> bn_id destFrame
                      then (registerNode (registerNode (fst st) sourceFrame) destFrame,
                            snd st @ [\<lparr>sourceId = bn_id sourceFrame, targetId = bn_id destFrame,
                                       trigger = or_default (r_trigger reaction) ''ON_CLICK'',
                                       action = or_default (a_type act) ''NAVIGATE''\<rparr>])
                      else st
                  | _ \<Rightarrow> st)))"

fun walkNode :: "(string \<Rightarrow> BaseNode option) \<Rightarrow> SceneNode \<Rightarrow> scan_state \<Rightarrow> scan_state" where
  "walkNode getNodeById (SceneNode b rs cs) st =
     (let st1 = (case rs of None \<Rightarrow> st
                 | Some rl \<Rightarrow> fold (processReaction getNodeById b) rl st)
      in case cs of None \<Rightarrow> st1
         | Some cl \<Rightarrow> fold (walkNode getNodeById) cl st1)"

definition inferStartingPoints :: "nodeMap \<Rightarrow> FlowEdge list \<Rightarrow> string list" where
  "inferStartingPoints m es =
     filter (\<lambda>i. i \<notin> set (map targetId es)) (map fst m)"

definition scanPrototypeConnections :: "Page \<Rightarrow> (string \<Rightarrow> BaseNode option) \<Rightarrow> FlowGraph" where
  "scanPrototypeConnections page getNodeById =
     (let st = fold (walkNode getNodeById) (page_children page) ([], []);
          declared = (case flowStartingPoints page of
                        None \<Rightarrow> []
                      | Some sps \<Rightarrow> filter (has (fst st)) sps)
      in \<lparr>nodes = map snd (fst st),
          edges = snd st,
          startingPointIds =
            (if declared = [] then inferStartingPoints (fst st) (snd st) else declared)\<rparr>)"

text \<open>
  The starting-point rule in the words of the specification, over the finished graph:
  the declared markers whose id is the id of an extracted node, in declaration order;
  when there is none, the ids of the nodes that no edge targets, in node order.
\<close>

definition spec_startingPointIds ::
  "string list option \<Rightarrow> FlowNode list \<Rightarrow> FlowEdge list \<Rightarrow> string list" where
  "spec_startingPointIds markers ns es =
     (let declared = filter (\<lambda>i. i \<in> set (map node_id ns))
                       (case markers of None \<Rightarrow> [] | Some ms \<Rightarrow> ms)
      in if declared \<noteq> [] then declared
         else map node_id (filter (\<lambda>n. length (filter (\<lambda>e. targetId e = node_id n) es) = 0) ns))"

text \<open>No element of the subtree carries an interaction record.\<close>

fun no_interactions :: "SceneNode \<Rightarrow> bool" where
  "no_interactions (SceneNode b rs cs) =
     ((case rs of None \<Rightarrow> True | Some rl \<Rightarrow> rl = []) \<and>
      (case cs of None \<Rightarrow> True | Some cl \<Rightarrow> list_all no_interactions cl))"

section \<open>Layout computation (ui.ts)\<close>

record LayoutNode =
  ln_id :: string
  ln_name :: string
  ln_x :: int
  ln_y :: int
  ln_width :: int
  ln_height :: int

record Point =
  pt_x :: int
  pt_y :: int

record LayoutEdge = FlowEdge +
  points :: "Point list"

record LayoutResult =
  layout_nodes :: "LayoutNode list"
  layout_edges :: "LayoutEdge list"

datatype direction = LR | TB

text \<open>
  The layout itself is done by the dagre library, which is not part of the repository.
  \<open>computeLayout\<close> hands it the graph settings, one node label per \<^verbatim>\<open>setNode\<close> call and
  one pair per \<^verbatim>\<open>setEdge\<close> call, and reads back \<^verbatim>\<open>g.node(id)\<close> and
  \<^verbatim>\<open>g.edge(source, target)\<close>; the library is a parameter of the model.
\<close>

record GraphSettings =
  rankdir :: direction
  nodesep :: int
  ranksep :: int
  marginx :: int
  marginy :: int

record NodeLabel =
  nl_id :: string
  nl_label :: string
  nl_width :: int
  nl_height :: int

record DagreGraph =
  dg_node :: "string \<Rightarrow> real \<times> real"
  dg_edge :: "string \<Rightarrow> string \<Rightarrow> (real \<times> real) list option"

type_synonym dagre_layout =
  "GraphSettings \<Rightarrow> NodeLabel list \<Rightarrow> (string \<times> string) list \<Rightarrow> DagreGraph"

definition CARD_W :: int where "CARD_W = 324"
definition CARD_H :: int where "CARD_H = 252"

definition computeLayout :: "dagre_layout \<Rightarrow> FlowGraph \<Rightarrow> direction \<Rightarrow> LayoutResult" where
  "computeLayout dagre graph dir =
     (let g = dagre \<lparr>rankdir = dir, nodesep = 80, ranksep = 120, marginx = 20, marginy = 20\<rparr>
                (map (\<lambda>n. \<lparr>nl_id = node_id n, nl_label = node_name n,
                            nl_width = CARD_W, nl_height = CARD_H\<rparr>) (nodes graph))
                (map (\<lambda>e. (sourceId e, targetId e)) (edges graph))
      in \<lparr>layout_nodes =
            map (\<lambda>n. let gNode = dg_node g (node_id n)
                      in \<lparr>ln_id = node_id n, ln_name = node_name n,
                          ln_x = Math_round (fst gNode - real_of_int CARD_W / 2),
                          ln_y = Math_round (snd gNode - real_of_int CARD_H / 2),
                          ln_width = CARD_W, ln_height = CARD_H\<rparr>) (nodes graph),
          layout_edges =
            map (\<lambda>e. \<lparr>sourceId = sourceId e, targetId = targetId e,
                        trigger = trigger e, action = action e,
                        points = (case dg_edge g (sourceId e) (targetId e) of
                                    None \<Rightarrow> []
                                  | Some ps \<Rightarrow>
                                      map (\<lambda>p. \<lparr>pt_x = Math_round (fst p),
                                                  pt_y = Math_round (snd p)\<rparr>) ps)\<rparr>)
                (edges graph)\<rparr>)"

section \<open>Flow diagram generator (code.ts)\<close>

record RGB =
  rgb_r :: real
  rgb_g :: real
  rgb_b :: real

definition FLOW_COLORS :: "RGB list" where
  "FLOW_COLORS =
     [\<lparr>rgb_r = 0.18, rgb_g = 0.8, rgb_b = 0.44\<rparr>,
      \<lparr>rgb_r = 0.91, rgb_g = 0.3, rgb_b = 0.24\<rparr>,
      \<lparr>rgb_r = 0.2, rgb_g = 0.6, rgb_b = 0.86\<rparr>,
      \<lparr>rgb_r = 0.95, rgb_g = 0.61, rgb_b = 0.07\<rparr>,
      \<lparr>rgb_r = 0.56, rgb_g = 0.27, rgb_b = 0.68\<rparr>]"

subsection \<open>Colour assignment\<close>

text \<open>\<^verbatim>\<open>[...new Set(xs)]\<close>: a set keeps its elements in the order of their first insertion.\<close>

definition set_add :: "'a \<Rightarrow> 'a list \<Rightarrow> 'a list" where
  "set_add v acc = (if v \<in> set acc then acc else acc @ [v])"

definition new_Set :: "'a list \<Rightarrow> 'a list" where
  "new_Set xs = fold set_add xs []"

text \<open>\<^verbatim>\<open>xs.indexOf(v)\<close>: the first position of \<open>v\<close>, or \<open>-1\<close>.\<close>

fun indexOf :: "'a list \<Rightarrow> 'a \<Rightarrow> int" where
  "indexOf [] v = - 1"
| "indexOf (y # ys) v =
     (if y = v then 0 else (let r = indexOf ys v in if r < 0 then - 1 else r + 1))"

text \<open>The remainder operator \<^verbatim>\<open>%\<close> on integers: the sign follows the dividend.\<close>

definition js_rem :: "int \<Rightarrow> int \<Rightarrow> int" where
  "js_rem a b = sgn a * (\<bar>a\<bar> mod \<bar>b\<bar>)"

text \<open>\<^verbatim>\<open>xs[i]\<close>: \<open>None\<close> is \<^verbatim>\<open>undefined\<close>.\<close>

definition array_get :: "'a list \<Rightarrow> int \<Rightarrow> 'a option" where
  "array_get xs i = (if 0 \<le> i \<and> i < int (length xs) then Some (xs ! nat i) else None)"

text \<open>The template string \<^verbatim>\<open>${sourceId}-${targetId}\<close>.\<close>

definition edge_key :: "string \<Rightarrow> string \<Rightarrow> string" where
  "edge_key s t = s @ ''-'' @ t"

definition assignFlowColors :: "LayoutResult \<Rightarrow> (string \<rightharpoonup> RGB option)" where
  "assignFlowColors layout =
     (let sourceNodes = new_Set (map sourceId (layout_edges layout))
      in fold (\<lambda>edge colorMap.
                 colorMap(edge_key (sourceId edge) (targetId edge) \<mapsto>
                   array_get FLOW_COLORS
                     (js_rem (indexOf sourceNodes (sourceId edge)) (int (length FLOW_COLORS)))))
           (layout_edges layout) Map.empty)"

text \<open>
  The colour rule in the words of the specification: the distinct source ids in order of
  first appearance, and the position of a source id among them.
\<close>

fun first_appearance :: "'a list \<Rightarrow> 'a list" where
  "first_appearance [] = []"
| "first_appearance (v # vs) = v # filter (\<lambda>w. w \<noteq> v) (first_appearance vs)"

fun position :: "'a list \<Rightarrow> 'a \<Rightarrow> nat" where
  "position [] v = 0"
| "position (y # ys) v = (if y = v then 0 else Suc (position ys v))"

definition spec_colorIndex :: "LayoutEdge list \<Rightarrow> string \<Rightarrow> nat" where
  "spec_colorIndex es s = position (first_appearance (map sourceId es)) s mod 5"

subsection \<open>Numbers\<close>

text \<open>
  The numbers of the arrow geometry are IEEE 754 double-precision values: \<^verbatim>\<open>NaN\<close>, the
  two infinities, or a finite value, which the model keeps as the real number it
  denotes. Every arithmetic operation computes the exact result and rounds it with
  \<open>fl\<close> to the nearest representable value, a tie going to the even significand; the
  significand has 53 bits, the least exponent is \<open>-1022\<close> with gradual underflow below
  it, and a result of magnitude \<open>2 ^ 1024\<close> or more is an infinity; the square
  root is the correctly rounded one. The model has one
  zero: a division by zero takes it as the positive zero, which is the only zero that
  the square root of a sum of squares can be, and the two zeros print alike.
\<close>

datatype number = NaN | PInf | NInf | Fin real

definition pow2 :: "int \<Rightarrow> real" where
  "pow2 e = (if 0 \<le> e then 2 ^ nat e else 1 / 2 ^ nat (- e))"

definition round_half_even :: "real \<Rightarrow> int" where
  "round_half_even q =
     (let f = \<lfloor>q\<rfloor>; d = q - of_int f
      in if d < 1 / 2 then f else if 1 / 2 < d then f + 1
         else if even f then f else f + 1)"

text \<open>The distance between neighbouring representable values around \<open>v\<close>.\<close>

definition ulp :: "real \<Rightarrow> real" where
  "ulp v = pow2 (max \<lfloor>log 2 \<bar>v\<bar>\<rfloor> (- 1022) - 52)"

definition fl :: "real \<Rightarrow> number" where
  "fl v =
     (if v = 0 then Fin 0
      else
        (let r = of_int (round_half_even (v / ulp v)) * ulp v
         in if 2 ^ 1024 \<le> \<bar>r\<bar> then (if 0 < v then PInf else NInf) else Fin r))"

fun js_add :: "number \<Rightarrow> number \<Rightarrow> number" where
  "js_add NaN _ = NaN"
| "js_add _ NaN = NaN"
| "js_add PInf NInf = NaN"
| "js_add NInf PInf = NaN"
| "js_add PInf _ = PInf"
| "js_add _ PInf = PInf"
| "js_add NInf _ = NInf"
| "js_add _ NInf = NInf"
| "js_add (Fin a) (Fin b) = fl (a + b)"

fun js_sub :: "number \<Rightarrow> number \<Rightarrow> number" where
  "js_sub NaN _ = NaN"
| "js_sub _ NaN = NaN"
| "js_sub PInf PInf = NaN"
| "js_sub NInf NInf = NaN"
| "js_sub PInf _ = PInf"
| "js_sub _ NInf = PInf"
| "js_sub NInf _ = NInf"
| "js_sub _ PInf = NInf"
| "js_sub (Fin a) (Fin b) = fl (a - b)"

fun js_mul :: "number \<Rightarrow> number \<Rightarrow> number" where
  "js_mul NaN _ = NaN"
| "js_mul _ NaN = NaN"
| "js_mul PInf PInf = PInf"
| "js_mul PInf NInf = NInf"
| "js_mul NInf PInf = NInf"
| "js_mul NInf NInf = PInf"
| "js_mul PInf (Fin b) = (if b = 0 then NaN else if 0 < b then PInf else NInf)"
| "js_mul NInf (Fin b) = (if b = 0 then NaN else if 0 < b then NInf else PInf)"
| "js_mul (Fin a) PInf = (if a = 0 then NaN else if 0 < a then PInf else NInf)"
| "js_mul (Fin a) NInf = (if a = 0 then NaN else if 0 < a then NInf else PInf)"
| "js_mul (Fin a) (Fin b) = fl (a * b)"

fun js_div :: "number \<Rightarrow> number \<Rightarrow> number" where
  "js_div NaN _ = NaN"
| "js_div _ NaN = NaN"
| "js_div PInf PInf = NaN"
| "js_div PInf NInf = NaN"
| "js_div NInf PInf = NaN"
| "js_div NInf NInf = NaN"
| "js_div PInf (Fin b) = (if 0 \<le> b then PInf else NInf)"
| "js_div NInf (Fin b) = (if 0 \<le> b then NInf else PInf)"
| "js_div (Fin a) PInf = Fin 0"
| "js_div (Fin a) NInf = Fin 0"
| "js_div (Fin a) (Fin b) =
     (if b = 0 then (if a = 0 then NaN else if 0 < a then PInf else NInf)
      else fl (a / b))"

fun Math_sqrt :: "number \<Rightarrow> number" where
  "Math_sqrt NaN = NaN"
| "Math_sqrt PInf = PInf"
| "Math_sqrt NInf = NaN"
| "Math_sqrt (Fin a) = (if a < 0 then NaN else fl (sqrt a))"

fun num_less :: "number \<Rightarrow> number \<Rightarrow> bool" where
  "num_less (Fin a) (Fin b) = (a < b)"
| "num_less NInf PInf = True"
| "num_less NInf (Fin b) = True"
| "num_less (Fin a) PInf = True"
| "num_less _ _ = False"

text \<open>
  \<^verbatim>\<open>Math.min(...xs)\<close>: \<^verbatim>\<open>NaN\<close> when an argument is \<^verbatim>\<open>NaN\<close>, otherwise the least
  argument, and \<^verbatim>\<open>Infinity\<close> without arguments.
\<close>

definition Math_min :: "number list \<Rightarrow> number" where
  "Math_min xs =
     (if NaN \<in> set xs then NaN
      else fold (\<lambda>v m. if num_less v m then v else m) xs PInf)"

subsection \<open>Arrow geometry\<close>

text \<open>
  The path data string \<^verbatim>\<open>M ${rsx} ${rsy} L ${rex} ${rey}\<close> is kept as the list of its
  commands with their numbers: a number is printed as the shortest decimal that reads
  back as the same number, so two strings are equal exactly when the commands are.
\<close>

datatype PathCmd = MoveTo number number | LineTo number number

record VectorPath =
  windingRule :: string
  data :: "PathCmd list"

record VectorNode =
  vec_name :: string
  vec_x :: number
  vec_y :: number
  vectorPaths :: "VectorPath list"
  strokes :: "RGB list"
  strokeWeight :: real
  strokeCap :: string

definition createArrow ::
  "number \<Rightarrow> number \<Rightarrow> number \<Rightarrow> number \<Rightarrow> RGB \<Rightarrow> VectorNode" where
  "createArrow x1 y1 x2 y2 color =
     (let gap = Fin 8; arrowSize = Fin 10;
          dx = js_sub x2 x1; dy = js_sub y2 y1;
          len = Math_sqrt (js_add (js_mul dx dx) (js_mul dy dy));
          ux = js_div dx len; uy = js_div dy len;
          sx = js_add x1 (js_mul ux gap); sy = js_add y1 (js_mul uy gap);
          ex = js_sub x2 (js_mul ux gap); ey = js_sub y2 (js_mul uy gap);
          ax1 = js_sub (js_sub ex (js_mul ux arrowSize)) (js_mul (js_mul uy arrowSize) (Fin 0.5));
          ay1 = js_add (js_sub ey (js_mul uy arrowSize)) (js_mul (js_mul ux arrowSize) (Fin 0.5));
          ax2 = js_add (js_sub ex (js_mul ux arrowSize)) (js_mul (js_mul uy arrowSize) (Fin 0.5));
          ay2 = js_sub (js_sub ey (js_mul uy arrowSize)) (js_mul (js_mul ux arrowSize) (Fin 0.5));
          originX = Math_min [sx, ex, ax1, ax2];
          originY = Math_min [sy, ey, ay1, ay2];
          rsx = js_sub sx originX; rsy = js_sub sy originY;
          rex = js_sub ex originX; rey = js_sub ey originY;
          rax1 = js_sub ax1 originX; ray1 = js_sub ay1 originY;
          rax2 = js_sub ax2 originX; ray2 = js_sub ay2 originY
      in \<lparr>vec_name = ''Arrow'', vec_x = originX, vec_y = originY,
          vectorPaths =
            [\<lparr>windingRule = ''NONZERO'', data = [MoveTo rsx rsy, LineTo rex rey]\<rparr>,
             \<lparr>windingRule = ''NONZERO'',
              data = [MoveTo rex rey, LineTo rax1 ray1,
                      MoveTo rex rey, LineTo rax2 ray2]\<rparr>],
          strokes = [color], strokeWeight = 2, strokeCap = ''ROUND''\<rparr>)"

text \<open>
  The length that \<open>createArrow\<close> divides by, and its four points before they are made
  relative: the two ends of the shortened shaft and the two ends of the arrowhead.
\<close>

definition arrow_len :: "number \<Rightarrow> number \<Rightarrow> number \<Rightarrow> number \<Rightarrow> number" where
  "arrow_len x1 y1 x2 y2 =
     (let dx = js_sub x2 x1; dy = js_sub y2 y1
      in Math_sqrt (js_add (js_mul dx dx) (js_mul dy dy)))"

definition arrowPoints ::
  "number \<Rightarrow> number \<Rightarrow> number \<Rightarrow> number \<Rightarrow> (number \<times> number) list" where
  "arrowPoints x1 y1 x2 y2 =
     (let gap = Fin 8; arrowSize = Fin 10;
          dx = js_sub x2 x1; dy = js_sub y2 y1;
          len = Math_sqrt (js_add (js_mul dx dx) (js_mul dy dy));
          ux = js_div dx len; uy = js_div dy len;
          sx = js_add x1 (js_mul ux gap); sy = js_add y1 (js_mul uy gap);
          ex = js_sub x2 (js_mul ux gap); ey = js_sub y2 (js_mul uy gap);
          ax1 = js_sub (js_sub ex (js_mul ux arrowSize)) (js_mul (js_mul uy arrowSize) (Fin 0.5));
          ay1 = js_add (js_sub ey (js_mul uy arrowSize)) (js_mul (js_mul ux arrowSize) (Fin 0.5));
          ax2 = js_add (js_sub ex (js_mul ux arrowSize)) (js_mul (js_mul uy arrowSize) (Fin 0.5));
          ay2 = js_sub (js_sub ey (js_mul uy arrowSize)) (js_mul (js_mul ux arrowSize) (Fin 0.5))
      in [(sx, sy), (ex, ey), (ax1, ay1), (ax2, ay2)])"

text \<open>The coordinates that the path data of a vector mention, in their order.\<close>

fun cmd_point :: "PathCmd \<Rightarrow> number \<times> number" where
  "cmd_point (MoveTo px py) = (px, py)"
| "cmd_point (LineTo px py) = (px, py)"

definition path_points :: "VectorNode \<Rightarrow> (number \<times> number) list" where
  "path_points v = map cmd_point (concat (map data (vectorPaths v)))"

subsection \<open>Tiers\<close>

record TierConfig =
  maxScreens :: enat
  flowHighlighting :: bool
  interactionLabels :: bool
  pdfExport :: bool

definition TIERS_free :: TierConfig where
  "TIERS_free = \<lparr>maxScreens = 10, flowHighlighting = False,
                  interactionLabels = False, pdfExport = False\<rparr>"

definition TIERS_pro :: TierConfig where
  "TIERS_pro = \<lparr>maxScreens = \<infinity>, flowHighlighting = True,
                 interactionLabels = True, pdfExport = True\<rparr>"

subsection \<open>Cards and arrows of generateDiagram\<close>

record Card =
  card_x :: number
  card_y :: number
  card_width :: number
  card_height :: number

definition THUMB_W :: number where "THUMB_W = Fin 300"
definition THUMB_H :: number where "THUMB_H = Fin 200"
definition PADDING :: number where "PADDING = Fin 40"
definition CARD_PADDING :: number where "CARD_PADDING = Fin 12"

text \<open>A coordinate of a layout node as the number that the composer reads.\<close>

definition coord :: "int \<Rightarrow> number" where
  "coord i = fl (real_of_int i)"

text \<open>
  \<^verbatim>\<open>minX = Math.min(minX, n.x)\<close> over the nodes, starting from \<^verbatim>\<open>Infinity\<close>.
\<close>

definition fold_min :: "(LayoutNode \<Rightarrow> number) \<Rightarrow> LayoutNode list \<Rightarrow> number" where
  "fold_min f ns = fold (\<lambda>k m. Math_min [m, f k]) ns PInf"

definition makeCards :: "LayoutNode list \<Rightarrow> (string \<times> Card) list" where
  "makeCards ns =
     (let minX = fold_min (\<lambda>k. coord (ln_x k)) ns;
          minY = fold_min (\<lambda>k. coord (ln_y k)) ns
      in map (\<lambda>k. (ln_id k,
                    \<lparr>card_x = js_add (js_sub (coord (ln_x k)) minX) PADDING,
                     card_y = js_add (js_sub (coord (ln_y k)) minY) PADDING,
                     card_width = js_add THUMB_W (js_mul CARD_PADDING (Fin 2)),
                     card_height =
                       js_add (js_add THUMB_H (js_mul CARD_PADDING (Fin 2))) (Fin 40)\<rparr>)) ns)"

definition cardMap_of :: "(string \<times> Card) list \<Rightarrow> (string \<rightharpoonup> Card)" where
  "cardMap_of cs = fold (\<lambda>kc m. m(fst kc \<mapsto> snd kc)) cs Map.empty"

definition neutral :: RGB where
  "neutral = \<lparr>rgb_r = 0.4, rgb_g = 0.4, rgb_b = 0.45\<rparr>"

definition edgeColor :: "TierConfig \<Rightarrow> (string \<rightharpoonup> RGB option) \<Rightarrow> LayoutEdge \<Rightarrow> RGB" where
  "edgeColor currentTier flowColors edge =
     (if flowHighlighting currentTier
      then (case flowColors (edge_key (sourceId edge) (targetId edge)) of
              Some (Some c) \<Rightarrow> c
            | _ \<Rightarrow> FLOW_COLORS ! 0)
      else neutral)"

text \<open>
  The loop that draws the arrows: one entry per edge whose two cards exist, the result
  of \<open>createArrow\<close> at the right centre of the source card and the left centre of the
  target card.
\<close>

definition drawArrows :: "TierConfig \<Rightarrow> LayoutResult \<Rightarrow> VectorNode list" where
  "drawArrows currentTier layout =
     (let flowColors = assignFlowColors layout;
          cardMap = cardMap_of (makeCards (layout_nodes layout))
      in concat (map (\<lambda>edge.
           (case (cardMap (sourceId edge), cardMap (targetId edge)) of
              (Some sourceCard, Some targetCard) \<Rightarrow>
                [createArrow (js_add (card_x sourceCard) (card_width sourceCard))
                             (js_add (card_y sourceCard) (js_div (card_height sourceCard) (Fin 2)))
                             (card_x targetCard)
                             (js_add (card_y targetCard) (js_div (card_height targetCard) (Fin 2)))
                             (edgeColor currentTier flowColors edge)]
            | _ \<Rightarrow> [])) (layout_edges layout)))"

section \<open>Message handler (code.ts)\<close>

datatype CodeToUIMessage = graph_msg FlowGraph | error_msg string | status_msg string

datatype effect = postMessage CodeToUIMessage | notify string

text \<open>A number in a template string: the decimal digits of a natural number.\<close>

function show_nat :: "nat \<Rightarrow> string" where
  "show_nat n = (if n < 10 then [''0123456789'' ! n]
                 else show_nat (n div 10) @ [''0123456789'' ! (n mod 10)])"
  by pat_completeness auto
termination
  by (relation "measure (\<lambda>n. n)") auto

declare show_nat.simps [simp del]

definition show_limit :: "enat \<Rightarrow> string" where
  "show_limit m = (case m of enat n \<Rightarrow> show_nat n | \<infinity> \<Rightarrow> ''Infinity'')"

definition limit_message :: "enat \<Rightarrow> nat \<Rightarrow> string" where
  "limit_message limit found =
     ''Free tier supports up to '' @ show_limit limit @ '' screens. Found '' @
     show_nat found @ ''. Upgrade to Pro for unlimited.''"

text \<open>The \<^verbatim>\<open>scan\<close> case after the scanner has returned \<open>graph\<close>.\<close>

definition scan_reply :: "TierConfig \<Rightarrow> FlowGraph \<Rightarrow> effect list" where
  "scan_reply currentTier graph =
     [postMessage (status_msg ''Scanning prototype connections...'')] @
     (if length (nodes graph) = 0
      then [postMessage (error_msg
              ''No prototype connections found on this page. Add some prototype links between frames first.'')]
      else if enat (length (nodes graph)) > maxScreens currentTier
      then [postMessage (error_msg
              (limit_message (maxScreens currentTier) (length (nodes graph))))]
      else [postMessage (graph_msg graph),
            notify (''Found '' @ show_nat (length (nodes graph)) @ '' screens, '' @
                    show_nat (length (edges graph)) @ '' connections'')])"

definition onmessage_scan ::
  "TierConfig \<Rightarrow> Page \<Rightarrow> (string \<Rightarrow> BaseNode option) \<Rightarrow> effect list" where
  "onmessage_scan currentTier page getNodeById =
     scan_reply currentTier (scanPrototypeConnections page getNodeById)"

section \<open>The invariant of the scan\<close>

text \<open>
  What holds of \<open>nodeMap\<close> and \<open>edges\<close> after every step of the walk: the keys are
  distinct, every entry is stored under its own id, and every edge joins two different
  registered keys.
\<close>

definition scan_inv :: "scan_state \<Rightarrow> bool" where
  "scan_inv st =
     (distinct (map fst (fst st)) \<and>
      list_all (\<lambda>p. node_id (snd p) = fst p) (fst st) \<and>
      list_all (\<lambda>e. sourceId e \<noteq> targetId e \<and> has (fst st) (sourceId e) \<and> has (fst st) (targetId e))
        (snd st))"

text \<open>
  The elements of a subtree in the order of the walk, the top-level frames that a scan
  can resolve (from an element of the page or from a looked-up destination), and the
  property that every stored node is the rounded image of one of a set of frames.
\<close>

fun elements :: "SceneNode \<Rightarrow> BaseNode list" where
  "elements (SceneNode b rs cs) =
     b # (case cs of None \<Rightarrow> [] | Some cl \<Rightarrow> concat (map elements cl))"

definition resolvedFrames :: "Page \<Rightarrow> (string \<Rightarrow> BaseNode option) \<Rightarrow> BaseNode set" where
  "resolvedFrames page getNodeById =
     {f. (\<exists>b \<in> set (concat (map elements (page_children page))). findTopFrame b = Some f) \<or>
         (\<exists>d dn. getNodeById d = Some dn \<and> findTopFrame dn = Some f)}"

definition rounded_from :: "BaseNode set \<Rightarrow> scan_state \<Rightarrow> bool" where
  "rounded_from S st =
     (\<forall>p \<in> set (fst st). \<exists>f \<in> S.
        snd p = \<lparr>node_id = bn_id f, node_name = bn_name f,
                  node_width = Math_round (bn_width f),
                  node_height = Math_round (bn_height f)\<rparr>)"

section \<open>Concrete pages\<close>

text \<open>
  A page with two frames: \<open>home\<close> reports the size \<open>(375.5, 812.7)\<close> and holds a button
  with two reactions to \<open>details\<close>. \<open>cyclic_page\<close> adds a button on \<open>details\<close> that
  leads back; \<open>lonely_page\<close> holds the one frame \<open>home\<close> without any reaction.
\<close>

definition document :: BaseNode where
  "document = BaseNode ''0:0'' ''Document'' ''DOCUMENT'' 0 0 None"
definition page1 :: BaseNode where
  "page1 = BaseNode ''0:1'' ''Page 1'' ''PAGE'' 0 0 (Some document)"
definition home :: BaseNode where
  "home = BaseNode ''1:2'' ''Home'' ''FRAME'' 375.5 812.7 (Some page1)"
definition details :: BaseNode where
  "details = BaseNode ''1:3'' ''Details'' ''FRAME'' 375 812 (Some page1)"
definition button :: BaseNode where
  "button = BaseNode ''1:4'' ''Go'' ''INSTANCE'' 100 44 (Some home)"
definition back_button :: BaseNode where
  "back_button = BaseNode ''1:5'' ''Back'' ''INSTANCE'' 100 44 (Some details)"
definition go :: Reaction where
  "go = Reaction (Some ''ON_HOVER'') (Some (Action None (Some ''1:3'')))"
definition go_back :: Reaction where
  "go_back = Reaction None (Some (Action (Some ''OVERLAY'') (Some ''1:2'')))"
definition demo_lookup :: "string \<Rightarrow> BaseNode option" where
  "demo_lookup i = (if i = ''1:2'' then Some home else if i = ''1:3'' then Some details
     else if i = ''1:4'' then Some button else if i = ''1:5'' then Some back_button else None)"
definition demo_page :: Page where
  "demo_page = \<lparr>page_children =
      [SceneNode home None (Some [SceneNode button (Some [go, go]) None]),
       SceneNode details (Some []) (Some [])],
     flowStartingPoints = Some [''9:9'', ''1:3'']\<rparr>"
definition cyclic_page :: Page where
  "cyclic_page = \<lparr>page_children =
      [SceneNode home None (Some [SceneNode button (Some [go]) None]),
       SceneNode details (Some []) (Some [SceneNode back_button (Some [go_back]) None])],
     flowStartingPoints = Some [''9:9'']\<rparr>"
definition lonely_page :: Page where
  "lonely_page = \<lparr>page_children = [SceneNode home (Some []) (Some [])],
     flowStartingPoints = None\<rparr>"

definition resized_home :: BaseNode where
  "resized_home = BaseNode ''1:2'' ''Home v2'' ''FRAME'' 400 900 (Some page1)"

definition stored_home :: FlowNode where
  "stored_home = \<lparr>node_id = ''1:2'', node_name = ''Home'', node_width = 376, node_height = 813\<rparr>"

definition resized_button :: BaseNode where
  "resized_button = BaseNode ''1:4'' ''Go'' ''INSTANCE'' 100 44 (Some resized_home)"


section \<open>Concrete graphs and layouts\<close>

text \<open>A graph of \<open>k\<close> screens without edges, as the tier tests build it.\<close>

definition makeGraph :: "nat \<Rightarrow> FlowGraph" where
  "makeGraph k = \<lparr>nodes = map (\<lambda>i. \<lparr>node_id = show_nat i, node_name = ''Screen '' @ show_nat i,
                                      node_width = 375, node_height = 812\<rparr>) [0..<k],
                  edges = [], startingPointIds = []\<rparr>"

text \<open>
  \<open>six_layout\<close> has edges from six different sources; in \<open>clash_layout\<close> the ids
  contain the character \<open>-\<close>, so that two different edges have the same key.
\<close>

definition mkEdge :: "string \<Rightarrow> string \<Rightarrow> LayoutEdge" where
  "mkEdge s t = \<lparr>sourceId = s, targetId = t, trigger = ''ON_CLICK'', action = ''NAVIGATE'',
                  points = []\<rparr>"

definition six_layout :: LayoutResult where
  "six_layout = \<lparr>layout_nodes = [],
     layout_edges = [mkEdge ''1:1'' ''1:2'', mkEdge ''1:1'' ''1:3'', mkEdge ''1:2'' ''1:3'',
                     mkEdge ''1:3'' ''1:4'', mkEdge ''1:4'' ''1:5'', mkEdge ''1:5'' ''1:6'',
                     mkEdge ''1:6'' ''1:1'']\<rparr>"

definition clash_layout :: LayoutResult where
  "clash_layout = \<lparr>layout_nodes = [],
     layout_edges = [mkEdge ''a-b'' ''c'', mkEdge ''a'' ''b-c'', mkEdge ''a-b'' ''d'']\<rparr>"

text \<open>
  In \<open>touching_layout\<close> the second card starts where the first one ends;
  \<open>spaced_layout\<close> has the distance that the layout settings ask for, and one edge
  to a node without card.
\<close>

definition touching_layout :: LayoutResult where
  "touching_layout =
     \<lparr>layout_nodes =
        [\<lparr>ln_id = ''1:2'', ln_name = ''Home'', ln_x = 0, ln_y = 0,
          ln_width = 324, ln_height = 252\<rparr>,
         \<lparr>ln_id = ''1:3'', ln_name = ''Details'', ln_x = 324, ln_y = 0,
          ln_width = 324, ln_height = 252\<rparr>],
      layout_edges =
        [\<lparr>sourceId = ''1:2'', targetId = ''1:3'', trigger = ''ON_CLICK'',
          action = ''NAVIGATE'', points = []\<rparr>]\<rparr>"

definition spaced_layout :: LayoutResult where
  "spaced_layout =
     \<lparr>layout_nodes =
        [\<lparr>ln_id = ''1:2'', ln_name = ''Home'', ln_x = 20, ln_y = 20,
          ln_width = 324, ln_height = 252\<rparr>,
         \<lparr>ln_id = ''1:3'', ln_name = ''Details'', ln_x = 464, ln_y = 20,
          ln_width = 324, ln_height = 252\<rparr>],
      layout_edges =
        [\<lparr>sourceId = ''1:2'', targetId = ''1:3'', trigger = ''ON_CLICK'',
          action = ''NAVIGATE'', points = []\<rparr>,
         \<lparr>sourceId = ''1:2'', targetId = ''9:9'', trigger = ''ON_CLICK'',
          action = ''NAVIGATE'', points = []\<rparr>]\<rparr>"

definition demo_arrow :: VectorNode where
  "demo_arrow =
     \<lparr>vec_name = ''Arrow'', vec_x = Fin 372, vec_y = Fin 167,
      vectorPaths =
        [\<lparr>windingRule = ''NONZERO'', data = [MoveTo (Fin 0) (Fin 5), LineTo (Fin 104) (Fin 5)]\<rparr>,
         \<lparr>windingRule = ''NONZERO'',
          data = [MoveTo (Fin 104) (Fin 5), LineTo (Fin 94) (Fin 10),
                  MoveTo (Fin 104) (Fin 5), LineTo (Fin 94) (Fin 0)]\<rparr>],
      strokes = [neutral], strokeWeight = 2, strokeCap = ''ROUND''\<rparr>"

section \<open>Properties of the scanner\<close>

lemmas demo_defs = document_def page1_def home_def details_def button_def go_def
  demo_lookup_def demo_page_def back_button_def go_back_def cyclic_page_def lonely_page_def
lemmas scan_defs = scanPrototypeConnections_def processReaction_def registerNode_def
      has_def toFlowNode_def Math_round_def or_default_def frame_like_def inferStartingPoints_def


lemma fold_preserves:
  assumes "\<And>x s. x \<in> set xs \<Longrightarrow> P s \<Longrightarrow> P (f x s)" and "P s"
  shows "P (fold f xs s)"
  using assms by (induction xs arbitrary: s) auto

lemma has_registerNode: "has (registerNode m f) k = (has m k \<or> k = bn_id f)"
  by (auto simp: registerNode_def has_def)

lemma distinct_registerNode: "distinct (map fst m) \<Longrightarrow> distinct (map fst (registerNode m f))"
  by (auto simp: registerNode_def has_def)

lemma ids_registerNode:
  "list_all (\<lambda>p. node_id (snd p) = fst p) m \<Longrightarrow>
   list_all (\<lambda>p. node_id (snd p) = fst p) (registerNode m f)"
  by (auto simp: registerNode_def toFlowNode_def)

lemma scan_inv_processReaction:
  assumes "scan_inv st"
  shows "scan_inv (processReaction g b r st)"
proof -
  have step: "scan_inv (registerNode (registerNode (fst st) sf) df,
                  snd st @ [\<lparr>sourceId = bn_id sf, targetId = bn_id df, trigger = t, action = a\<rparr>])"
    if "bn_id sf \<noteq> bn_id df" for sf df t a
    using assms that
    by (simp add: scan_inv_def has_registerNode distinct_registerNode ids_registerNode)
       (auto simp: list_all_iff)
  show ?thesis
    using assms step
    by (auto simp: processReaction_def split: option.splits)
qed

lemma walkNode_preserves:
  "(\<And>b r s. P s \<Longrightarrow> P (processReaction g b r s)) \<Longrightarrow> P st \<Longrightarrow> P (walkNode g n st)"
proof (induction g n st rule: walkNode.induct)
  case (1 g b rs cs st)
  note pr = "1.prems"(1)
  define st1 where "st1 = (case rs of None \<Rightarrow> st | Some rl \<Rightarrow> fold (processReaction g b) rl st)"
  have inv1: "P st1"
  proof (cases rs)
    case None
    then show ?thesis using "1.prems"(2) by (simp add: st1_def)
  next
    case (Some rl)
    have "P (fold (processReaction g b) rl st)"
      by (rule fold_preserves[where P = P]) (use "1.prems"(2) pr in blast)+
    then show ?thesis using Some by (simp add: st1_def)
  qed
  show ?case
  proof (cases cs)
    case None
    then show ?thesis using inv1 by (simp add: st1_def)
  next
    case (Some cl)
    have "P (fold (walkNode g) cl st1)"
    proof (rule fold_preserves[where P = P])
      show "P st1" by (rule inv1)
    next
      fix x s assume "x \<in> set cl" "P s"
      then show "P (walkNode g x s)"
        using "1.IH"[OF st1_def[unfolded atomize_eq] Some] pr by blast
    qed
    then show ?thesis using Some by (simp add: st1_def)
  qed
qed

lemma scan_inv_scan: "scan_inv (fold (walkNode g) cs ([], []))"
proof (rule fold_preserves[where P = scan_inv])
  show "scan_inv ([], [])" by (simp add: scan_inv_def)
qed (rule walkNode_preserves[where P = scan_inv], rule scan_inv_processReaction)

lemma keys_are_ids:
  "list_all (\<lambda>p. node_id (snd p) = fst p) m \<Longrightarrow> map node_id (map snd m) = map fst m"
  by (induction m) auto

lemma scan_inv_ids: "scan_inv st \<Longrightarrow> map node_id (map snd (fst st)) = map fst (fst st)"
  unfolding scan_inv_def by (blast intro: keys_are_ids)

lemma demo_scan: "scanPrototypeConnections demo_page demo_lookup =
  \<lparr>nodes = [\<lparr>node_id = ''1:2'', node_name = ''Home'', node_width = 376, node_height = 813\<rparr>,
            \<lparr>node_id = ''1:3'', node_name = ''Details'', node_width = 375, node_height = 812\<rparr>],
   edges = [\<lparr>sourceId = ''1:2'', targetId = ''1:3'', trigger = ''ON_HOVER'', action = ''NAVIGATE''\<rparr>,
            \<lparr>sourceId = ''1:2'', targetId = ''1:3'', trigger = ''ON_HOVER'', action = ''NAVIGATE''\<rparr>],
   startingPointIds = [''1:3'']\<rparr>"
  by (simp add: scan_defs demo_defs)

lemma cyclic_scan: "scanPrototypeConnections cyclic_page demo_lookup =
  \<lparr>nodes = [\<lparr>node_id = ''1:2'', node_name = ''Home'', node_width = 376, node_height = 813\<rparr>,
            \<lparr>node_id = ''1:3'', node_name = ''Details'', node_width = 375, node_height = 812\<rparr>],
   edges = [\<lparr>sourceId = ''1:2'', targetId = ''1:3'', trigger = ''ON_HOVER'', action = ''NAVIGATE''\<rparr>,
            \<lparr>sourceId = ''1:3'', targetId = ''1:2'', trigger = ''ON_CLICK'', action = ''OVERLAY''\<rparr>],
   startingPointIds = []\<rparr>"
  by (simp add: scan_defs demo_defs)

text \<open>
  C4. Every graph returned by \<open>scanPrototypeConnections\<close> is well-formed: the ids of
  its nodes are pairwise different, no edge has the same source and target, and both
  ends of every edge are ids of nodes of the graph.
\<close>

theorem scan_graph_well_formed:
  assumes "G = scanPrototypeConnections page getNodeById"
  shows "distinct (map node_id (nodes G)) \<and>
         (\<forall>e \<in> set (edges G).
            sourceId e \<noteq> targetId e \<and>
            sourceId e \<in> set (map node_id (nodes G)) \<and>
            targetId e \<in> set (map node_id (nodes G)))"
proof -
  define st where "st = fold (walkNode getNodeById) (page_children page) ([], [])"
  have inv: "scan_inv st" unfolding st_def by (rule scan_inv_scan)
  have G: "nodes G = map snd (fst st)" "edges G = snd st"
    using assms by (simp_all add: scanPrototypeConnections_def st_def Let_def)
  have ids: "map node_id (nodes G) = map fst (fst st)"
    unfolding G using inv by (rule scan_inv_ids)
  show ?thesis
    using inv unfolding ids G(2) by (auto simp: scan_inv_def list_all_iff has_def)
qed

text \<open>
  On \<open>demo_page\<close> the two reactions of the button give two equal edges: parallel edges
  are kept.
\<close>

theorem scan_graph_well_formed_witness:
  "edges (scanPrototypeConnections demo_page demo_lookup) =
     [\<lparr>sourceId = ''1:2'', targetId = ''1:3'', trigger = ''ON_HOVER'', action = ''NAVIGATE''\<rparr>,
      \<lparr>sourceId = ''1:2'', targetId = ''1:3'', trigger = ''ON_HOVER'', action = ''NAVIGATE''\<rparr>] \<and>
   map node_id (nodes (scanPrototypeConnections demo_page demo_lookup)) = [''1:2'', ''1:3''] \<and>
   distinct (map node_id (nodes (scanPrototypeConnections demo_page demo_lookup))) \<and>
   list_all (\<lambda>e. sourceId e \<noteq> targetId e \<and>
      sourceId e \<in> set (map node_id (nodes (scanPrototypeConnections demo_page demo_lookup))) \<and>
      targetId e \<in> set (map node_id (nodes (scanPrototypeConnections demo_page demo_lookup))))
     (edges (scanPrototypeConnections demo_page demo_lookup))"
  using scan_graph_well_formed [OF refl, of demo_page demo_lookup] demo_scan
  by (simp add: list_all_iff)

lemma no_incoming_filter:
  fixes ns :: "FlowNode list" and es :: "FlowEdge list"
  shows "filter (\<lambda>i. i \<notin> set (map targetId es)) (map node_id ns) =
   map node_id (filter (\<lambda>n. length (filter (\<lambda>e. targetId e = node_id n) es) = 0) ns)"
proof -
  have h: "(filter (\<lambda>e. targetId e = node_id n) es = []) = (node_id n \<notin> targetId ` set es)"
    for n :: FlowNode
    by (simp add: filter_empty_conv image_iff) metis
  show ?thesis by (induction ns) (simp_all add: h)
qed

text \<open>
  C3. The starting points of every scan are the declared markers that are ids of
  extracted nodes, in declaration order; when that list is empty they are the ids of the
  nodes without incoming edge, in node order. Hence they are empty when no marker
  resolves and every node has an incoming edge.
\<close>

theorem startingPointIds_as_specified:
  assumes "G = scanPrototypeConnections page getNodeById"
  shows "startingPointIds G = spec_startingPointIds (flowStartingPoints page) (nodes G) (edges G) \<and>
         ((\<forall>n \<in> set (nodes G). \<exists>e \<in> set (edges G). targetId e = node_id n) \<and>
          filter (\<lambda>i. i \<in> set (map node_id (nodes G)))
            (case flowStartingPoints page of None \<Rightarrow> [] | Some ms \<Rightarrow> ms) = []
          \<longrightarrow> startingPointIds G = [])"
proof -
  define st where "st = fold (walkNode getNodeById) (page_children page) ([], [])"
  have inv: "scan_inv st" unfolding st_def by (rule scan_inv_scan)
  have G: "nodes G = map snd (fst st)" "edges G = snd st"
    using assms by (simp_all add: scanPrototypeConnections_def st_def Let_def)
  have ids: "map node_id (nodes G) = map fst (fst st)"
    unfolding G using inv by (rule scan_inv_ids)
  define D where "D = (case flowStartingPoints page of
                          None \<Rightarrow> [] | Some sps \<Rightarrow> filter (has (fst st)) sps)"
  define D' where "D' = filter (\<lambda>i. i \<in> set (map node_id (nodes G)))
                          (case flowStartingPoints page of None \<Rightarrow> [] | Some ms \<Rightarrow> ms)"
  define I where "I = inferStartingPoints (fst st) (snd st)"
  have has: "has (fst st) = (\<lambda>i. i \<in> set (map node_id (nodes G)))"
    unfolding ids by (rule ext) (simp add: has_def)
  have DD': "D = D'"
    unfolding D_def D'_def has by (simp split: option.splits)
  have inferred: "I =
      map node_id (filter (\<lambda>n. length (filter (\<lambda>e. targetId e = node_id n) (edges G)) = 0) (nodes G))"
    unfolding I_def inferStartingPoints_def ids[symmetric] G(2)[symmetric] by (rule no_incoming_filter)
  have "startingPointIds G = (if D = [] then I else D)"
    unfolding assms scanPrototypeConnections_def st_def[symmetric] Let_def D_def[symmetric]
      I_def[symmetric] by simp
  then have sp: "startingPointIds G = (if D' = [] then I else D')"
    unfolding DD' .
  have first: "startingPointIds G = spec_startingPointIds (flowStartingPoints page) (nodes G) (edges G)"
    unfolding sp spec_startingPointIds_def inferred D'_def by (simp add: Let_def)
  have second: "startingPointIds G = []"
    if "\<forall>n \<in> set (nodes G). \<exists>e \<in> set (edges G). targetId e = node_id n"
      and "filter (\<lambda>i. i \<in> set (map node_id (nodes G)))
            (case flowStartingPoints page of None \<Rightarrow> [] | Some ms \<Rightarrow> ms) = []"
    using that unfolding first spec_startingPointIds_def
    by (auto simp: Let_def filter_empty_conv)
  show ?thesis using first second by blast
qed

theorem startingPointIds_as_specified_witness:
  "startingPointIds (scanPrototypeConnections demo_page demo_lookup) = [''1:3''] \<and>
   spec_startingPointIds (flowStartingPoints demo_page)
      (nodes (scanPrototypeConnections demo_page demo_lookup))
      (edges (scanPrototypeConnections demo_page demo_lookup)) = [''1:3''] \<and>
   map node_id (nodes (scanPrototypeConnections cyclic_page demo_lookup)) = [''1:2'', ''1:3''] \<and>
   map targetId (edges (scanPrototypeConnections cyclic_page demo_lookup)) = [''1:3'', ''1:2''] \<and>
   flowStartingPoints cyclic_page = Some [''9:9''] \<and>
   startingPointIds (scanPrototypeConnections cyclic_page demo_lookup) = []"
proof -
  have markers: "flowStartingPoints cyclic_page = Some [''9:9'']"
    by (simp add: cyclic_page_def)
  have incoming:
    "\<forall>n \<in> set (nodes (scanPrototypeConnections cyclic_page demo_lookup)).
       \<exists>e \<in> set (edges (scanPrototypeConnections cyclic_page demo_lookup)).
         targetId e = node_id n"
    by (simp add: cyclic_scan)
  have unresolved:
    "filter (\<lambda>i. i \<in> set (map node_id (nodes (scanPrototypeConnections cyclic_page demo_lookup))))
       (case flowStartingPoints cyclic_page of None \<Rightarrow> [] | Some ms \<Rightarrow> ms) = []"
    by (simp add: cyclic_scan markers)
  have empty: "startingPointIds (scanPrototypeConnections cyclic_page demo_lookup) = []"
    using startingPointIds_as_specified [OF refl, of cyclic_page demo_lookup]
      incoming unresolved by blast
  have "startingPointIds (scanPrototypeConnections demo_page demo_lookup) =
     spec_startingPointIds (flowStartingPoints demo_page)
      (nodes (scanPrototypeConnections demo_page demo_lookup))
      (edges (scanPrototypeConnections demo_page demo_lookup))"
    using startingPointIds_as_specified [OF refl, of demo_page demo_lookup] by blast
  then show ?thesis
    using empty markers by (simp add: demo_scan cyclic_scan)
qed

lemma walkNode_no_interactions: "no_interactions n \<Longrightarrow> walkNode g n st = st"
proof (induction g n st rule: walkNode.induct)
  case (1 g b rs cs st)
  have st1: "(case rs of None \<Rightarrow> st | Some rl \<Rightarrow> fold (processReaction g b) rl st) = st"
    using "1.prems" by (auto split: option.splits)
  show ?case
  proof (cases cs)
    case None
    then show ?thesis using st1 by simp
  next
    case (Some cl)
    have "fold (walkNode g) cl st = st"
      by (rule fold_preserves[where P = "\<lambda>s. s = st"])
         (use "1.IH"[OF refl Some] "1.prems" Some st1 in \<open>auto simp: list_all_iff\<close>)
    then show ?thesis using Some st1 by simp
  qed
qed

text \<open>
  A page with the single frame \<open>home\<close> and no reaction: the scan returns no node at
  all, since a frame is registered only as an end of a recorded transition.
\<close>

theorem isolated_container_counterexample:
  "scanPrototypeConnections lonely_page demo_lookup = \<lparr>nodes = [], edges = [], startingPointIds = []\<rparr> \<and>
   \<not> (length (nodes (scanPrototypeConnections lonely_page demo_lookup)) = 1 \<and>
      edges (scanPrototypeConnections lonely_page demo_lookup) = [] \<and>
      startingPointIds (scanPrototypeConnections lonely_page demo_lookup) = [''1:2''])"
  by (simp add: scan_defs demo_defs)

text \<open>
  C1, as the code has it. For a page with a single top-level container and no
  interaction record anywhere in it, the scan returns the empty graph: no node, no edge
  and no starting point.
\<close>

theorem isolated_container_yields_empty_graph:
  assumes "page_children page = [c]" and "no_interactions c"
  shows "scanPrototypeConnections page getNodeById =
           \<lparr>nodes = [], edges = [], startingPointIds = []\<rparr>"
  using assms
  by (simp add: scanPrototypeConnections_def walkNode_no_interactions has_def
        inferStartingPoints_def split: option.splits)

theorem isolated_container_yields_empty_graph_witness:
  "page_children lonely_page = [SceneNode home (Some []) (Some [])] \<and>
   no_interactions (SceneNode home (Some []) (Some [])) \<and>
   scanPrototypeConnections lonely_page demo_lookup =
     \<lparr>nodes = [], edges = [], startingPointIds = []\<rparr>"
proof -
  have a: "page_children lonely_page = [SceneNode home (Some []) (Some [])]"
    by (simp add: lonely_page_def)
  have b: "no_interactions (SceneNode home (Some []) (Some []))" by simp
  show ?thesis using a b isolated_container_yields_empty_graph [OF a b] by simp
qed


lemma Math_round_nearest: "\<bar>real_of_int (Math_round v) - v\<bar> \<le> 1 / 2"
  unfolding Math_round_def by linarith

lemma map_of_registerNode:
  "map_of m k = Some n \<Longrightarrow> map_of (registerNode m f) k = Some n"
  by (simp add: registerNode_def map_add_Some_iff)

lemma map_of_processReaction:
  "map_of (fst st) k = Some n \<Longrightarrow> map_of (fst (processReaction g b r st)) k = Some n"
  by (auto simp: processReaction_def map_of_registerNode split: option.splits)

lemma map_of_walkNode:
  "map_of (fst st) k = Some n \<Longrightarrow> map_of (fst (walkNode g s st)) k = Some n"
  by (rule walkNode_preserves[where P = "\<lambda>st. map_of (fst st) k = Some n"])
     (rule map_of_processReaction)

lemma rounded_from_registerNode:
  "rounded_from S (m, es) \<Longrightarrow> f \<in> S \<Longrightarrow> rounded_from S (registerNode m f, es')"
  by (auto simp: rounded_from_def registerNode_def toFlowNode_def)

lemma rounded_from_processReaction:
  assumes "rounded_from S st"
    and "\<And>f. findTopFrame b = Some f \<Longrightarrow> f \<in> S"
    and "\<And>d dn f. g d = Some dn \<Longrightarrow> findTopFrame dn = Some f \<Longrightarrow> f \<in> S"
  shows "rounded_from S (processReaction g b r st)"
proof -
  have st: "rounded_from S (fst st, snd st)" using assms(1) by simp
  show ?thesis
    unfolding processReaction_def
    using assms(1) rounded_from_registerNode[OF rounded_from_registerNode[OF st]] assms(2,3)
    by (auto split: option.splits)
qed

lemma rounded_from_walkNode:
  "rounded_from S st \<Longrightarrow>
   (\<And>b f. b \<in> set (elements n) \<Longrightarrow> findTopFrame b = Some f \<Longrightarrow> f \<in> S) \<Longrightarrow>
   (\<And>d dn f. g d = Some dn \<Longrightarrow> findTopFrame dn = Some f \<Longrightarrow> f \<in> S) \<Longrightarrow>
   rounded_from S (walkNode g n st)"
proof (induction g n st rule: walkNode.induct)
  case (1 g b rs cs st)
  note look = "1.prems"(3)
  have own: "f \<in> S" if "findTopFrame b = Some f" for f
    using "1.prems"(2)[of b f] that by simp
  define st1 where "st1 = (case rs of None \<Rightarrow> st | Some rl \<Rightarrow> fold (processReaction g b) rl st)"
  have inv1: "rounded_from S st1"
  proof (cases rs)
    case None
    then show ?thesis using "1.prems"(1) by (simp add: st1_def)
  next
    case (Some rl)
    have "rounded_from S (fold (processReaction g b) rl st)"
      by (rule fold_preserves[where P = "rounded_from S"])
         (use "1.prems"(1) own look rounded_from_processReaction in blast)+
    then show ?thesis using Some by (simp add: st1_def)
  qed
  show ?case
  proof (cases cs)
    case None
    then show ?thesis using inv1 by (simp add: st1_def)
  next
    case (Some cl)
    have "rounded_from S (fold (walkNode g) cl st1)"
    proof (rule fold_preserves[where P = "rounded_from S"])
      show "rounded_from S st1" by (rule inv1)
    next
      fix x s assume x: "x \<in> set cl" and s: "rounded_from S s"
      have sub: "\<And>b' f. b' \<in> set (elements x) \<Longrightarrow> findTopFrame b' = Some f \<Longrightarrow> f \<in> S"
        using "1.prems"(2) x Some by force
      show "rounded_from S (walkNode g x s)"
        by (rule "1.IH"[OF st1_def[unfolded atomize_eq] Some x s sub look])
    qed
    then show ?thesis using Some by (simp add: st1_def)
  qed
qed

lemma rounded_from_scan:
  "rounded_from (resolvedFrames page g) (fold (walkNode g) (page_children page) ([], []))"
proof (rule fold_preserves[where P = "rounded_from (resolvedFrames page g)"])
  show "rounded_from (resolvedFrames page g) ([], [])" by (simp add: rounded_from_def)
next
  fix x s assume x: "x \<in> set (page_children page)" and s: "rounded_from (resolvedFrames page g) s"
  show "rounded_from (resolvedFrames page g) (walkNode g x s)"
  proof (rule rounded_from_walkNode[OF s])
    fix b f assume "b \<in> set (elements x)" "findTopFrame b = Some f"
    then show "f \<in> resolvedFrames page g" using x by (auto simp: resolvedFrames_def)
  next
    fix d dn f assume "g d = Some dn" "findTopFrame dn = Some f"
    then show "f \<in> resolvedFrames page g" by (auto simp: resolvedFrames_def)
  qed
qed

lemma has_map_of: "has m k = (map_of m k \<noteq> None)"
  by (simp add: has_def map_of_eq_None_iff)

lemma map_of_registerNode_fresh:
  "map_of m (bn_id f) = None \<Longrightarrow>
   map_of (registerNode m f) (bn_id f) =
     Some \<lparr>node_id = bn_id f, node_name = bn_name f,
           node_width = Math_round (bn_width f), node_height = Math_round (bn_height f)\<rparr>"
  by (simp add: registerNode_def has_map_of toFlowNode_def map_add_def)

lemma map_of_registerNode_other:
  "k \<noteq> bn_id f \<Longrightarrow> map_of (registerNode m f) k = map_of m k"
  by (cases "map_of m k") (simp_all add: registerNode_def map_add_def)

lemma map_of_registerNode_either:
  "map_of (registerNode m f) (bn_id f) =
     Some (case map_of m (bn_id f) of
             Some n \<Rightarrow> n
           | None \<Rightarrow> \<lparr>node_id = bn_id f, node_name = bn_name f,
                       node_width = Math_round (bn_width f),
                       node_height = Math_round (bn_height f)\<rparr>)"
  using map_of_registerNode_fresh[of m f] map_of_registerNode[of m "bn_id f" _ f]
  by (cases "map_of m (bn_id f)") auto

lemma processReaction_resolved:
  assumes "r_action r = Some act" and "a_destinationId act = Some dest" and "dest \<noteq> []"
    and "findTopFrame b = Some sf" and "g dest = Some dn" and "findTopFrame dn = Some df"
    and "bn_id sf \<noteq> bn_id df"
  shows "fst (processReaction g b r (m, es)) = registerNode (registerNode m sf) df"
  using assms by (simp add: processReaction_def)


text \<open>
  C8. When a reaction resolves to two different top-level frames, each of them is
  afterwards stored under its id: a frame that was not yet registered with its reported
  width and height rounded to a nearest integer, \<open>(375.5, 812.7)\<close> becoming
  \<open>(376, 813)\<close>, and a frame that was registered before with the entry it already
  had. Every node of a scanned graph is such a rounded image of a frame that the scan
  resolved, and an entry stored under an id is the same after any further
  registration, reaction or walk.
\<close>

theorem registration_stores_rounded_size:
  "(r_action r = Some act \<and> a_destinationId act = Some dest \<and> dest \<noteq> [] \<and>
    findTopFrame b = Some sf \<and> getNodeById dest = Some dn \<and> findTopFrame dn = Some df \<and>
    bn_id sf \<noteq> bn_id df \<longrightarrow>
      map_of (fst (processReaction getNodeById b r (m, es))) (bn_id sf) =
        Some (case map_of m (bn_id sf) of
                Some old \<Rightarrow> old
              | None \<Rightarrow> \<lparr>node_id = bn_id sf, node_name = bn_name sf,
                          node_width = Math_round (bn_width sf),
                          node_height = Math_round (bn_height sf)\<rparr>) \<and>
      map_of (fst (processReaction getNodeById b r (m, es))) (bn_id df) =
        Some (case map_of m (bn_id df) of
                Some old \<Rightarrow> old
              | None \<Rightarrow> \<lparr>node_id = bn_id df, node_name = bn_name df,
                          node_width = Math_round (bn_width df),
                          node_height = Math_round (bn_height df)\<rparr>)) \<and>
   (\<forall>n \<in> set (nodes (scanPrototypeConnections page getNodeById)).
      \<exists>f \<in> resolvedFrames page getNodeById.
        n = \<lparr>node_id = bn_id f, node_name = bn_name f,
              node_width = Math_round (bn_width f),
              node_height = Math_round (bn_height f)\<rparr>) \<and>
   \<bar>real_of_int (Math_round v) - v\<bar> \<le> 1 / 2 \<and>
   Math_round 375.5 = 376 \<and> Math_round 812.7 = 813 \<and>
   (map_of m k = Some stored \<longrightarrow>
      map_of (registerNode m f) k = Some stored \<and>
      map_of (fst (processReaction getNodeById b r (m, es))) k = Some stored \<and>
      map_of (fst (walkNode getNodeById s (m, es))) k = Some stored \<and>
      map_of (fst (fold (walkNode getNodeById) cs (m, es))) k = Some stored)"
proof -
  have reg: "map_of (fst (processReaction getNodeById b r (m, es))) (bn_id sf) =
        Some (case map_of m (bn_id sf) of
                Some old \<Rightarrow> old
              | None \<Rightarrow> \<lparr>node_id = bn_id sf, node_name = bn_name sf,
                          node_width = Math_round (bn_width sf),
                          node_height = Math_round (bn_height sf)\<rparr>) \<and>
      map_of (fst (processReaction getNodeById b r (m, es))) (bn_id df) =
        Some (case map_of m (bn_id df) of
                Some old \<Rightarrow> old
              | None \<Rightarrow> \<lparr>node_id = bn_id df, node_name = bn_name df,
                          node_width = Math_round (bn_width df),
                          node_height = Math_round (bn_height df)\<rparr>)"
    if res: "r_action r = Some act \<and> a_destinationId act = Some dest \<and> dest \<noteq> [] \<and>
      findTopFrame b = Some sf \<and> getNodeById dest = Some dn \<and> findTopFrame dn = Some df \<and>
      bn_id sf \<noteq> bn_id df"
  proof -
    have step: "fst (processReaction getNodeById b r (m, es)) = registerNode (registerNode m sf) df"
      using res by (intro processReaction_resolved) auto
    have src: "map_of (registerNode (registerNode m sf) df) (bn_id sf) =
        map_of (registerNode m sf) (bn_id sf)"
      using res by (intro map_of_registerNode_other) auto
    have dst: "map_of (registerNode m sf) (bn_id df) = map_of m (bn_id df)"
      using res by (intro map_of_registerNode_other) auto
    show ?thesis
      unfolding step src
      using map_of_registerNode_either[of m sf] map_of_registerNode_either[of "registerNode m sf" df]
      unfolding dst by simp
  qed
  have scan: "\<forall>n \<in> set (nodes (scanPrototypeConnections page getNodeById)).
      \<exists>f \<in> resolvedFrames page getNodeById.
        n = \<lparr>node_id = bn_id f, node_name = bn_name f,
              node_width = Math_round (bn_width f),
              node_height = Math_round (bn_height f)\<rparr>"
    using rounded_from_scan[of page getNodeById]
    by (auto simp: scanPrototypeConnections_def rounded_from_def Let_def)
  have ex: "Math_round 375.5 = 376" "Math_round 812.7 = 813"
    by (simp_all add: Math_round_def)
  have keep: "map_of (registerNode m f) k = Some stored \<and>
      map_of (fst (processReaction getNodeById b r (m, es))) k = Some stored \<and>
      map_of (fst (walkNode getNodeById s (m, es))) k = Some stored \<and>
      map_of (fst (fold (walkNode getNodeById) cs (m, es))) k = Some stored"
    if stored: "map_of m k = Some stored"
  proof -
    have "map_of (fst (fold (walkNode getNodeById) cs (m, es))) k = Some stored"
      by (rule fold_preserves[where P = "\<lambda>st. map_of (fst st) k = Some stored"])
         (use stored map_of_walkNode in auto)
    then show ?thesis
      using stored map_of_registerNode map_of_processReaction[of "(m, es)"]
        map_of_walkNode[of "(m, es)"] by simp
  qed
  show ?thesis using reg scan ex keep Math_round_nearest by blast
qed

theorem registration_stores_rounded_size_witness:
  "findTopFrame button = Some home \<and> bn_width home = 375.5 \<and> bn_height home = 812.7 \<and>
   map_of (fst (processReaction demo_lookup button go ([], []))) ''1:2'' = Some stored_home \<and>
   node_width stored_home = 376 \<and> node_height stored_home = 813 \<and>
   findTopFrame resized_button = Some resized_home \<and> bn_width resized_home = 400 \<and>
   map_of (fst (processReaction demo_lookup resized_button go ([(''1:2'', stored_home)], [])))
     ''1:2'' = Some stored_home \<and>
   map_of (fst (fold (walkNode demo_lookup) (page_children demo_page)
                  ([(''1:2'', stored_home)], []))) ''1:2'' = Some stored_home \<and>
   hd (nodes (scanPrototypeConnections demo_page demo_lookup)) = stored_home"
proof -
  have res1: "r_action go = Some (Action None (Some ''1:3'')) \<and>
      a_destinationId (Action None (Some ''1:3'')) = Some ''1:3'' \<and> ''1:3'' \<noteq> [] \<and>
      findTopFrame button = Some home \<and> demo_lookup ''1:3'' = Some details \<and>
      findTopFrame details = Some details \<and> bn_id home \<noteq> bn_id details"
    by (simp add: demo_defs frame_like_def)
  have res2: "r_action go = Some (Action None (Some ''1:3'')) \<and>
      a_destinationId (Action None (Some ''1:3'')) = Some ''1:3'' \<and> ''1:3'' \<noteq> [] \<and>
      findTopFrame resized_button = Some resized_home \<and> demo_lookup ''1:3'' = Some details \<and>
      findTopFrame details = Some details \<and> bn_id resized_home \<noteq> bn_id details"
    by (simp add: demo_defs resized_button_def resized_home_def frame_like_def)
  have stored: "map_of [(''1:2'', stored_home)] ''1:2'' = Some stored_home" by simp
  have ids: "bn_id home = ''1:2''" "bn_id resized_home = ''1:2''"
    by (simp_all add: home_def resized_home_def)
  have round_home: "\<lparr>node_id = bn_id home, node_name = bn_name home,
       node_width = Math_round (bn_width home), node_height = Math_round (bn_height home)\<rparr>
       = stored_home"
    by (simp add: home_def stored_home_def Math_round_def)
  note first = registration_stores_rounded_size
      [of go "Action None (Some ''1:3'')" "''1:3''" button home demo_lookup details details
          "[]" "[]" demo_page "375.5" "''1:2''" stored_home home
          "SceneNode details (Some []) (Some [])" "page_children demo_page"]
  note second = registration_stores_rounded_size
      [of go "Action None (Some ''1:3'')" "''1:3''" resized_button resized_home demo_lookup
          details details "[(''1:2'', stored_home)]" "[]" demo_page "375.5" "''1:2''"
          stored_home resized_home "SceneNode details (Some []) (Some [])"
          "page_children demo_page"]
  have a: "map_of (fst (processReaction demo_lookup button go ([], []))) ''1:2'' = Some stored_home"
    using first res1 round_home by (simp add: ids)
  have b: "map_of (fst (processReaction demo_lookup resized_button go ([(''1:2'', stored_home)], [])))
     ''1:2'' = Some stored_home"
    using second res2 stored by (simp add: ids)
  have c: "map_of (fst (fold (walkNode demo_lookup) (page_children demo_page)
                  ([(''1:2'', stored_home)], []))) ''1:2'' = Some stored_home"
    using second stored by blast
  show ?thesis
    using a b c res1 res2
    by (simp add: demo_scan stored_home_def home_def resized_home_def)
qed


section \<open>Properties of the layout\<close>

text \<open>
  C10. Whatever the layout library returns, \<open>computeLayout\<close> gives back the nodes of
  the graph in their order with their ids and names and the fixed size 324 by 252, and
  the edges in their order with source, target, trigger and action unchanged.
\<close>

theorem computeLayout_frame:
  "map (\<lambda>n. (ln_id n, ln_name n, ln_width n, ln_height n))
       (layout_nodes (computeLayout dagre graph dir)) =
   map (\<lambda>n. (node_id n, node_name n, 324, 252)) (nodes graph) \<and>
   map (\<lambda>e. (sourceId e, targetId e, trigger e, action e))
       (layout_edges (computeLayout dagre graph dir)) =
   map (\<lambda>e. (sourceId e, targetId e, trigger e, action e)) (edges graph)"
  by (simp add: computeLayout_def Let_def CARD_W_def CARD_H_def comp_def)

section \<open>Properties of the colour assignment\<close>

lemma fold_set_add:
  "fold set_add xs acc = acc @ filter (\<lambda>v. v \<notin> set acc) (first_appearance xs)"
proof (induction xs arbitrary: acc)
  case Nil
  then show ?case by simp
next
  case (Cons v vs)
  show ?case
  proof (cases "v \<in> set acc")
    case True
    have "filter (\<lambda>w. w \<notin> set acc) (filter (\<lambda>w. w \<noteq> v) (first_appearance vs)) =
          filter (\<lambda>w. w \<notin> set acc) (first_appearance vs)"
      using True by (auto intro: filter_cong)
    then show ?thesis using True Cons.IH[of acc] by (simp add: set_add_def)
  next
    case False
    have "filter (\<lambda>w. w \<notin> set (acc @ [v])) (first_appearance vs) =
          filter (\<lambda>w. w \<notin> set acc) (filter (\<lambda>w. w \<noteq> v) (first_appearance vs))"
      by (auto intro: filter_cong)
    then show ?thesis using False Cons.IH[of "acc @ [v]"] by (simp add: set_add_def)
  qed
qed

lemma new_Set_first_appearance: "new_Set xs = first_appearance xs"
  by (simp add: new_Set_def fold_set_add)

lemma set_first_appearance: "set (first_appearance xs) = set xs"
  by (induction xs) auto

lemma indexOf_position: "v \<in> set xs \<Longrightarrow> indexOf xs v = int (position xs v)"
  by (induction xs) (auto simp: Let_def)

lemma js_rem_nat: "js_rem (int p) (int q) = int (p mod q)"
  by (cases "p = 0") (simp_all add: js_rem_def zmod_int)

lemma palette_get: "array_get FLOW_COLORS (int (p mod 5)) = Some (FLOW_COLORS ! (p mod 5))"
  by (simp add: array_get_def FLOW_COLORS_def)

lemma length_FLOW_COLORS: "length FLOW_COLORS = 5"
  by (simp add: FLOW_COLORS_def)

lemma fold_upd_lookup:
  assumes "\<forall>e \<in> set es. key e = k \<longrightarrow> val e = v"
    and "(\<exists>e \<in> set es. key e = k) \<or> m k = Some v"
  shows "fold (\<lambda>e cm. cm(key e \<mapsto> val e)) es m k = Some v"
  using assms by (induction es arbitrary: m) auto

lemma key_source_no_hyphen:
  assumes "CHR ''-'' \<notin> set s" and "CHR ''-'' \<notin> set s'"
    and "edge_key s t = edge_key s' t'"
  shows "s = s'"
proof -
  have "takeWhile (\<lambda>c. c \<noteq> CHR ''-'') (edge_key u w) = u" if "CHR ''-'' \<notin> set u" for u w
    using that unfolding edge_key_def by (induction u) auto
  then show ?thesis using assms by metis
qed

lemma assignFlowColors_lookup:
  fixes l :: LayoutResult and e :: LayoutEdge
  assumes keys: "\<forall>d \<in> set (layout_edges l).
        edge_key (sourceId d) (targetId d) = edge_key (sourceId e) (targetId e)
        \<longrightarrow> sourceId d = sourceId e"
    and e: "e \<in> set (layout_edges l)"
  shows "assignFlowColors l (edge_key (sourceId e) (targetId e)) =
           Some (Some (FLOW_COLORS ! spec_colorIndex (layout_edges l) (sourceId e)))"
proof -
  define srcs where "srcs = first_appearance (map sourceId (layout_edges l))"
  have val: "array_get FLOW_COLORS (js_rem (indexOf srcs (sourceId d)) (int (length FLOW_COLORS)))
      = Some (FLOW_COLORS ! (position srcs (sourceId d) mod 5))"
    if "d \<in> set (layout_edges l)" for d :: LayoutEdge
  proof -
    have "sourceId d \<in> set srcs" using that by (simp add: srcs_def set_first_appearance)
    then have "indexOf srcs (sourceId d) = int (position srcs (sourceId d))"
      by (rule indexOf_position)
    then show ?thesis
      using js_rem_nat[of "position srcs (sourceId d)" 5] palette_get
      by (simp add: length_FLOW_COLORS)
  qed
  have "fold (\<lambda>d cm. cm(edge_key (sourceId d) (targetId d) \<mapsto>
            array_get FLOW_COLORS (js_rem (indexOf srcs (sourceId d)) (int (length FLOW_COLORS)))))
          (layout_edges l) Map.empty (edge_key (sourceId e) (targetId e))
        = Some (Some (FLOW_COLORS ! (position srcs (sourceId e) mod 5)))"
  proof (rule fold_upd_lookup)
    show "\<forall>d\<in>set (layout_edges l).
       edge_key (sourceId d) (targetId d) = edge_key (sourceId e) (targetId e) \<longrightarrow>
       array_get FLOW_COLORS (js_rem (indexOf srcs (sourceId d)) (int (length FLOW_COLORS))) =
       Some (FLOW_COLORS ! (position srcs (sourceId e) mod 5))"
      using keys val by auto
    show "(\<exists>d\<in>set (layout_edges l).
        edge_key (sourceId d) (targetId d) = edge_key (sourceId e) (targetId e)) \<or>
        Map.empty (edge_key (sourceId e) (targetId e)) =
        Some (Some (FLOW_COLORS ! (position srcs (sourceId e) mod 5)))"
      using e by blast
  qed
  then show ?thesis
    by (simp add: assignFlowColors_def new_Set_first_appearance srcs_def spec_colorIndex_def)
qed

lemma assignFlowColors_edges_only:
  fixes l l' :: LayoutResult
  assumes "map (\<lambda>d. (sourceId d, targetId d)) (layout_edges l') =
           map (\<lambda>d. (sourceId d, targetId d)) (layout_edges l)"
  shows "assignFlowColors l' = assignFlowColors l"
proof -
  have rep: "assignFlowColors k =
      (let ps = map (\<lambda>d. (sourceId d, targetId d)) (layout_edges k);
           srcs = new_Set (map fst ps)
       in fold (\<lambda>p cm. cm(edge_key (fst p) (snd p) \<mapsto>
                  array_get FLOW_COLORS
                    (js_rem (indexOf srcs (fst p)) (int (length FLOW_COLORS)))))
            ps Map.empty)" for k :: LayoutResult
    by (simp add: assignFlowColors_def Let_def fold_map comp_def)
  show ?thesis unfolding rep[of l'] rep[of l] assms ..
qed

text \<open>
  With ids that contain \<open>-\<close> two edges of different sources can have the same key:
  the later one overwrites the colour of the earlier one, which then differs from the
  colour of another edge of the same source.
\<close>

theorem assignFlowColors_key_clash_counterexample:
  "mkEdge ''a-b'' ''c'' \<in> set (layout_edges clash_layout) \<and>
   mkEdge ''a-b'' ''d'' \<in> set (layout_edges clash_layout) \<and>
   spec_colorIndex (layout_edges clash_layout) ''a-b'' = 0 \<and>
   assignFlowColors clash_layout (edge_key ''a-b'' ''c'') = Some (Some (FLOW_COLORS ! 1)) \<and>
   assignFlowColors clash_layout (edge_key ''a-b'' ''d'') = Some (Some (FLOW_COLORS ! 0)) \<and>
   FLOW_COLORS ! 1 \<noteq> FLOW_COLORS ! 0"
  by (simp add: clash_layout_def mkEdge_def spec_colorIndex_def assignFlowColors_def new_Set_def
      set_add_def edge_key_def js_rem_def array_get_def FLOW_COLORS_def)


text \<open>
  C5, as the code has it. When the key of an edge determines its source among the edges
  of the layout (as it does when no source id contains \<open>-\<close>), \<open>assignFlowColors\<close>
  maps the key of every edge to the palette colour at the position of the edge's source
  among the distinct sources in order of first appearance, modulo the palette length 5.
  Hence two edges of one source have the same colour, the sixth source has the colour of
  the first, and the map depends on the sources and targets of the edge list only.
\<close>

theorem assignFlowColors_by_source:
  fixes l l' :: LayoutResult and e e' :: LayoutEdge
  assumes "\<forall>d \<in> set (layout_edges l). \<forall>d' \<in> set (layout_edges l).
        edge_key (sourceId d) (targetId d) = edge_key (sourceId d') (targetId d')
        \<longrightarrow> sourceId d = sourceId d'"
    and "e \<in> set (layout_edges l)" and "e' \<in> set (layout_edges l)"
  shows "assignFlowColors l (edge_key (sourceId e) (targetId e)) =
           Some (Some (FLOW_COLORS ! spec_colorIndex (layout_edges l) (sourceId e))) \<and>
         length FLOW_COLORS = 5 \<and>
         (sourceId e' = sourceId e \<longrightarrow>
            assignFlowColors l (edge_key (sourceId e') (targetId e')) =
            assignFlowColors l (edge_key (sourceId e) (targetId e))) \<and>
         (position (first_appearance (map sourceId (layout_edges l))) (sourceId e) = 0 \<and>
          position (first_appearance (map sourceId (layout_edges l))) (sourceId e') = 5 \<longrightarrow>
            assignFlowColors l (edge_key (sourceId e') (targetId e')) =
            assignFlowColors l (edge_key (sourceId e) (targetId e))) \<and>
         (map (\<lambda>d. (sourceId d, targetId d)) (layout_edges l') =
          map (\<lambda>d. (sourceId d, targetId d)) (layout_edges l) \<longrightarrow>
            assignFlowColors l' = assignFlowColors l)"
proof -
  have a: "assignFlowColors l (edge_key (sourceId e) (targetId e)) =
           Some (Some (FLOW_COLORS ! spec_colorIndex (layout_edges l) (sourceId e)))"
    by (rule assignFlowColors_lookup) (use assms in blast)+
  have b: "assignFlowColors l (edge_key (sourceId e') (targetId e')) =
           Some (Some (FLOW_COLORS ! spec_colorIndex (layout_edges l) (sourceId e')))"
    by (rule assignFlowColors_lookup) (use assms in blast)+
  have c: "assignFlowColors l (edge_key (sourceId e') (targetId e')) =
            assignFlowColors l (edge_key (sourceId e) (targetId e))"
    if "spec_colorIndex (layout_edges l) (sourceId e') = spec_colorIndex (layout_edges l) (sourceId e)"
    using a b that by simp
  have d: "spec_colorIndex (layout_edges l) (sourceId e') = spec_colorIndex (layout_edges l) (sourceId e)"
    if "position (first_appearance (map sourceId (layout_edges l))) (sourceId e) = 0"
       "position (first_appearance (map sourceId (layout_edges l))) (sourceId e') = 5"
    using that by (simp add: spec_colorIndex_def)
  have same: "assignFlowColors l (edge_key (sourceId e') (targetId e')) =
            assignFlowColors l (edge_key (sourceId e) (targetId e))"
    if "sourceId e' = sourceId e"
    using c that by simp
  have wrap: "assignFlowColors l (edge_key (sourceId e') (targetId e')) =
            assignFlowColors l (edge_key (sourceId e) (targetId e))"
    if "position (first_appearance (map sourceId (layout_edges l))) (sourceId e) = 0 \<and>
        position (first_appearance (map sourceId (layout_edges l))) (sourceId e') = 5"
    by (rule c, rule d) (use that in simp_all)
  have pure: "assignFlowColors l' = assignFlowColors l"
    if "map (\<lambda>d. (sourceId d, targetId d)) (layout_edges l') =
        map (\<lambda>d. (sourceId d, targetId d)) (layout_edges l)"
    using that by (rule assignFlowColors_edges_only)
  show ?thesis
    using a same wrap pure length_FLOW_COLORS by blast
qed

lemma six_keys:
  "\<forall>d \<in> set (layout_edges six_layout). \<forall>d' \<in> set (layout_edges six_layout).
        edge_key (sourceId d) (targetId d) = edge_key (sourceId d') (targetId d')
        \<longrightarrow> sourceId d = sourceId d'"
proof -
  have "\<forall>d \<in> set (layout_edges six_layout). CHR ''-'' \<notin> set (sourceId d)"
    by (simp add: six_layout_def mkEdge_def)
  then show ?thesis using key_source_no_hyphen by blast
qed

theorem assignFlowColors_by_source_witness:
  "mkEdge ''1:1'' ''1:2'' \<in> set (layout_edges six_layout) \<and>
   mkEdge ''1:6'' ''1:1'' \<in> set (layout_edges six_layout) \<and>
   first_appearance (map sourceId (layout_edges six_layout)) =
     [''1:1'', ''1:2'', ''1:3'', ''1:4'', ''1:5'', ''1:6''] \<and>
   assignFlowColors six_layout (edge_key ''1:1'' ''1:2'') = Some (Some (FLOW_COLORS ! 0)) \<and>
   assignFlowColors six_layout (edge_key ''1:6'' ''1:1'') =
     assignFlowColors six_layout (edge_key ''1:1'' ''1:2'')"
proof -
  have e1: "mkEdge ''1:1'' ''1:2'' \<in> set (layout_edges six_layout)"
    and e6: "mkEdge ''1:6'' ''1:1'' \<in> set (layout_edges six_layout)"
    by (simp_all add: six_layout_def)
  have srcs: "first_appearance (map sourceId (layout_edges six_layout)) =
     [''1:1'', ''1:2'', ''1:3'', ''1:4'', ''1:5'', ''1:6'']"
    by (simp add: six_layout_def mkEdge_def)
  have p: "position [''1:1'', ''1:2'', ''1:3'', ''1:4'', ''1:5'', ''1:6''] ''1:1'' = 0"
    "position [''1:1'', ''1:2'', ''1:3'', ''1:4'', ''1:5'', ''1:6''] ''1:6'' = 5"
    by simp_all
  show ?thesis
    using assignFlowColors_by_source [OF six_keys e1 e6, of six_layout] e1 e6 srcs p
    by (simp add: mkEdge_def spec_colorIndex_def)
qed

section \<open>Properties of the number model\<close>

lemma pow2_powr: "pow2 e = 2 powr (of_int e)"
  by (auto simp: pow2_def powr_real_of_int inverse_eq_divide)

lemma pow2_pos: "0 < pow2 e"
  by (simp add: pow2_powr)

lemma ulp_pos: "0 < ulp v"
  by (simp add: ulp_def pow2_pos)

lemma round_half_even_int: "round_half_even (of_int k) = k"
  by (simp add: round_half_even_def)

lemma round_half_even_nonneg: "0 \<le> q \<Longrightarrow> 0 \<le> round_half_even q"
  by (auto simp: round_half_even_def Let_def)

lemma ulp_eval:
  assumes "pow2 e \<le> \<bar>v\<bar>" and "\<bar>v\<bar> < pow2 (e + 1)"
  shows "ulp v = pow2 (max e (- 1022) - 52)"
proof -
  have pos: "0 < \<bar>v\<bar>" using assms(1) pow2_pos[of e] by linarith
  have "\<lfloor>log 2 \<bar>v\<bar>\<rfloor> = e"
    using assms pos by (simp add: floor_log_eq_powr_iff pow2_powr)
  then show ?thesis by (simp add: ulp_def)
qed

lemma fl_eval:
  assumes "pow2 e \<le> \<bar>v\<bar>" and "\<bar>v\<bar> < pow2 (e + 1)"
    and "round_half_even (v / pow2 (max e (- 1022) - 52)) = m"
    and "r = of_int m * pow2 (max e (- 1022) - 52)"
    and "\<bar>r\<bar> < 2 ^ 1024"
  shows "fl v = Fin r"
proof -
  have "v \<noteq> 0" using assms(1) pow2_pos[of e] by auto
  moreover have "ulp v = pow2 (max e (- 1022) - 52)" by (rule ulp_eval[OF assms(1,2)])
  ultimately show ?thesis using assms(3,4,5) by (simp add: fl_def Let_def)
qed

lemma fl_zero: "fl 0 = Fin 0"
  by (simp add: fl_def)

lemma fl_int:
  assumes "\<bar>n\<bar> < 2 ^ 53"
  shows "fl (of_int n) = Fin (of_int n)"
proof (cases "n = 0")
  case True
  then show ?thesis by (simp add: fl_zero)
next
  case False
  define v where "v = real_of_int n"
  define e where "e = \<lfloor>log 2 \<bar>v\<bar>\<rfloor>"
  have pos: "0 < \<bar>v\<bar>" using False by (simp add: v_def)
  have "1 \<le> \<bar>n\<bar>" using False by linarith
  then have "real_of_int 1 \<le> real_of_int \<bar>n\<bar>" by (rule of_int_le_iff[THEN iffD2])
  then have one: "1 \<le> \<bar>v\<bar>" by (simp add: v_def)
  have "real_of_int \<bar>n\<bar> < real_of_int (2 ^ 53)"
    using assms by (rule of_int_less_iff[THEN iffD2])
  then have lt: "\<bar>v\<bar> < 2 ^ 53" by (simp add: v_def)
  have bounds: "pow2 e \<le> \<bar>v\<bar>" "\<bar>v\<bar> < pow2 (e + 1)"
    using floor_log_eq_powr_iff[of "\<bar>v\<bar>" 2 e] pos by (simp_all add: e_def pow2_powr)
  have e0: "0 \<le> e" using one by (simp add: e_def)
  have "log 2 \<bar>v\<bar> < 53"
    using lt pos by (simp add: log_less_iff)
  then have e52: "e \<le> 52" unfolding e_def by linarith
  define k where "k = nat (52 - e)"
  have u: "pow2 (max e (- 1022) - 52) = 1 / 2 ^ k"
  proof (cases "e = 52")
    case True
    then show ?thesis by (simp add: pow2_def k_def)
  next
    case False
    then have "e - 52 < 0" using e52 by simp
    then show ?thesis using e0 by (simp add: pow2_def k_def max_def)
  qed
  have q: "v / (1 / 2 ^ k) = of_int (n * 2 ^ k)" by (simp add: v_def)
  have "fl v = Fin v"
  proof (rule fl_eval[OF bounds])
    show "round_half_even (v / pow2 (max e (- 1022) - 52)) = n * 2 ^ k"
      unfolding u q by (rule round_half_even_int)
    show "v = real_of_int (n * 2 ^ k) * pow2 (max e (- 1022) - 52)"
      unfolding u by (simp add: v_def)
    show "\<bar>v\<bar> < 2 ^ 1024"
    proof -
      have "(2::real) ^ 53 \<le> 2 ^ 1024" by (rule power_increasing) simp_all
      then show ?thesis using lt by linarith
    qed
  qed
  then show ?thesis by (simp add: v_def)
qed

lemma fl_numeral:
  "numeral k < (9007199254740992::int) \<Longrightarrow> fl (numeral k) = Fin (numeral k)"
  using fl_int[of "numeral k"] by simp

lemma fl_neg_numeral:
  "numeral k < (9007199254740992::int) \<Longrightarrow> fl (- numeral k) = Fin (- numeral k)"
  using fl_int[of "- numeral k"] by simp

lemma fl_one: "fl 1 = Fin 1"
  using fl_int[of 1] by simp

lemmas fl_exact = fl_zero fl_one fl_numeral fl_neg_numeral

lemma fl_nonneg:
  assumes "0 \<le> v"
  shows "fl v \<noteq> NaN \<and> \<not> num_less (fl v) (Fin 0)"
proof -
  have "0 \<le> v / ulp v" using assms ulp_pos[of v] by simp
  then have "0 \<le> round_half_even (v / ulp v)" by (rule round_half_even_nonneg)
  then have "0 \<le> real_of_int (round_half_even (v / ulp v)) * ulp v"
    using ulp_pos[of v] by simp
  moreover have "v = 0 \<or> 0 < v" using assms by linarith
  ultimately show ?thesis by (auto simp: fl_def Let_def)
qed

lemma fold_min_zero:
  assumes "\<forall>v \<in> set xs. v \<noteq> NaN \<and> \<not> num_less v (Fin 0)"
    and "acc \<noteq> NaN \<and> \<not> num_less acc (Fin 0)"
    and "Fin 0 \<in> set xs \<or> acc = Fin 0"
  shows "fold (\<lambda>v m. if num_less v m then v else m) xs acc = Fin 0"
  using assms
proof (induction xs arbitrary: acc)
  case Nil
  then show ?case by simp
next
  case (Cons x xs)
  define acc' where "acc' = (if num_less x acc then x else acc)"
  have a: "acc' \<noteq> NaN \<and> \<not> num_less acc' (Fin 0)"
    using Cons.prems by (simp add: acc'_def)
  have b: "Fin 0 \<in> set xs \<or> acc' = Fin 0"
  proof (cases "x = Fin 0")
    case True
    then show ?thesis using Cons.prems(2)
      by (cases acc) (auto simp: acc'_def)
  next
    case False
    then show ?thesis using Cons.prems(1,3)
      by (cases x) (auto simp: acc'_def)
  qed
  have "fold (\<lambda>v m. if num_less v m then v else m) xs acc' = Fin 0"
    by (rule Cons.IH) (use Cons.prems a b in auto)
  then show ?case by (simp add: acc'_def)
qed

lemma Math_min_zero:
  assumes "\<forall>v \<in> set xs. v \<noteq> NaN \<and> \<not> num_less v (Fin 0)" and "Fin 0 \<in> set xs"
  shows "Math_min xs = Fin 0"
proof -
  have "NaN \<notin> set xs" using assms(1) by blast
  then show ?thesis
    using fold_min_zero[OF assms(1), of PInf] assms(2) by (simp add: Math_min_def)
qed

lemma Math_min_Fin4:
  "Math_min [Fin a, Fin b, Fin c, Fin d] = Fin (Min {a, b, c, d})"
  by (simp add: Math_min_def min_def)

section \<open>Properties of the arrow geometry\<close>

lemma createArrow_points:
  assumes "arrowPoints x1 y1 x2 y2 = [(sx, sy), (ex, ey), (ax1, ay1), (ax2, ay2)]"
  shows "createArrow x1 y1 x2 y2 c =
     \<lparr>vec_name = ''Arrow'',
      vec_x = Math_min [sx, ex, ax1, ax2],
      vec_y = Math_min [sy, ey, ay1, ay2],
      vectorPaths =
        [\<lparr>windingRule = ''NONZERO'',
          data = [MoveTo (js_sub sx (Math_min [sx, ex, ax1, ax2])) (js_sub sy (Math_min [sy, ey, ay1, ay2])),
                  LineTo (js_sub ex (Math_min [sx, ex, ax1, ax2])) (js_sub ey (Math_min [sy, ey, ay1, ay2]))]\<rparr>,
         \<lparr>windingRule = ''NONZERO'',
          data = [MoveTo (js_sub ex (Math_min [sx, ex, ax1, ax2])) (js_sub ey (Math_min [sy, ey, ay1, ay2])),
                  LineTo (js_sub ax1 (Math_min [sx, ex, ax1, ax2])) (js_sub ay1 (Math_min [sy, ey, ay1, ay2])),
                  MoveTo (js_sub ex (Math_min [sx, ex, ax1, ax2])) (js_sub ey (Math_min [sy, ey, ay1, ay2])),
                  LineTo (js_sub ax2 (Math_min [sx, ex, ax1, ax2])) (js_sub ay2 (Math_min [sy, ey, ay1, ay2]))]\<rparr>],
      strokes = [c], strokeWeight = 2, strokeCap = ''ROUND''\<rparr>"
proof -
  have pts: "sx = fst (arrowPoints x1 y1 x2 y2 ! 0)" "sy = snd (arrowPoints x1 y1 x2 y2 ! 0)"
    "ex = fst (arrowPoints x1 y1 x2 y2 ! 1)" "ey = snd (arrowPoints x1 y1 x2 y2 ! 1)"
    "ax1 = fst (arrowPoints x1 y1 x2 y2 ! 2)" "ay1 = snd (arrowPoints x1 y1 x2 y2 ! 2)"
    "ax2 = fst (arrowPoints x1 y1 x2 y2 ! 3)" "ay2 = snd (arrowPoints x1 y1 x2 y2 ! 3)"
    by (simp_all add: assms)
  show ?thesis
    unfolding pts by (simp add: createArrow_def arrowPoints_def Let_def)
qed

lemma js_div_Fin: "b \<noteq> 0 \<Longrightarrow> js_div (Fin a) (Fin b) = fl (a / b)"
  by simp

lemma js_sub_self: "js_sub (Fin a) (Fin a) = Fin 0"
  by (simp add: fl_zero)

lemma js_sub_ge:
  "m \<le> a \<Longrightarrow> js_sub (Fin a) (Fin m) \<noteq> NaN \<and> \<not> num_less (js_sub (Fin a) (Fin m)) (Fin 0)"
  using fl_nonneg[of "a - m"] by simp

text \<open>
  C7, as the code has it. Whenever the four points that \<open>createArrow\<close> computes
  (the two shaft ends and the two arrowhead points) are finite numbers, the arrow is
  positioned at their componentwise minimum, every path coordinate is the rounded
  difference between a coordinate of one of these points and that position, and the
  least path coordinate is 0 on each axis.
\<close>

theorem createArrow_origin_is_minimum:
  assumes "arrowPoints x1 y1 x2 y2 =
             [(Fin sx, Fin sy), (Fin ex, Fin ey), (Fin ax1, Fin ay1), (Fin ax2, Fin ay2)]"
  shows "vec_x (createArrow x1 y1 x2 y2 c) = Fin (Min {sx, ex, ax1, ax2}) \<and>
         vec_y (createArrow x1 y1 x2 y2 c) = Fin (Min {sy, ey, ay1, ay2}) \<and>
         path_points (createArrow x1 y1 x2 y2 c) =
           map (\<lambda>i. (js_sub (fst (arrowPoints x1 y1 x2 y2 ! i)) (vec_x (createArrow x1 y1 x2 y2 c)),
                      js_sub (snd (arrowPoints x1 y1 x2 y2 ! i)) (vec_y (createArrow x1 y1 x2 y2 c))))
             [0, 1, 1, 2, 1, 3] \<and>
         Math_min (map fst (path_points (createArrow x1 y1 x2 y2 c))) = Fin 0 \<and>
         Math_min (map snd (path_points (createArrow x1 y1 x2 y2 c))) = Fin 0"
proof -
  define ox where "ox = Min {sx, ex, ax1, ax2}"
  define oy where "oy = Min {sy, ey, ay1, ay2}"
  note arrow = createArrow_points [OF assms, of c, unfolded Math_min_Fin4, folded ox_def oy_def]
  have vx: "vec_x (createArrow x1 y1 x2 y2 c) = Fin ox"
    and vy: "vec_y (createArrow x1 y1 x2 y2 c) = Fin oy"
    by (simp_all add: arrow)
  have pp: "path_points (createArrow x1 y1 x2 y2 c) =
      [(js_sub (Fin sx) (Fin ox), js_sub (Fin sy) (Fin oy)),
       (js_sub (Fin ex) (Fin ox), js_sub (Fin ey) (Fin oy)),
       (js_sub (Fin ex) (Fin ox), js_sub (Fin ey) (Fin oy)),
       (js_sub (Fin ax1) (Fin ox), js_sub (Fin ay1) (Fin oy)),
       (js_sub (Fin ex) (Fin ox), js_sub (Fin ey) (Fin oy)),
       (js_sub (Fin ax2) (Fin ox), js_sub (Fin ay2) (Fin oy))]"
    unfolding arrow path_points_def by simp
  have rel: "path_points (createArrow x1 y1 x2 y2 c) =
           map (\<lambda>i. (js_sub (fst (arrowPoints x1 y1 x2 y2 ! i)) (vec_x (createArrow x1 y1 x2 y2 c)),
                      js_sub (snd (arrowPoints x1 y1 x2 y2 ! i)) (vec_y (createArrow x1 y1 x2 y2 c))))
             [0, 1, 1, 2, 1, 3]"
    unfolding vx vy pp assms by simp
  have lex: "ox \<le> sx" "ox \<le> ex" "ox \<le> ax1" "ox \<le> ax2"
    by (simp_all add: ox_def)
  have ley: "oy \<le> sy" "oy \<le> ey" "oy \<le> ay1" "oy \<le> ay2"
    by (simp_all add: oy_def)
  have inx: "ox \<in> {sx, ex, ax1, ax2}" unfolding ox_def by (rule Min_in) simp_all
  have iny: "oy \<in> {sy, ey, ay1, ay2}" unfolding oy_def by (rule Min_in) simp_all
  have minx: "Math_min (map fst (path_points (createArrow x1 y1 x2 y2 c))) = Fin 0"
  proof (rule Math_min_zero)
    show "\<forall>v\<in>set (map fst (path_points (createArrow x1 y1 x2 y2 c))).
            v \<noteq> NaN \<and> \<not> num_less v (Fin 0)"
      unfolding pp using lex js_sub_ge by simp
    show "Fin 0 \<in> set (map fst (path_points (createArrow x1 y1 x2 y2 c)))"
      unfolding pp using inx js_sub_self by auto
  qed
  have miny: "Math_min (map snd (path_points (createArrow x1 y1 x2 y2 c))) = Fin 0"
  proof (rule Math_min_zero)
    show "\<forall>v\<in>set (map snd (path_points (createArrow x1 y1 x2 y2 c))).
            v \<noteq> NaN \<and> \<not> num_less v (Fin 0)"
      unfolding pp using ley js_sub_ge by simp
    show "Fin 0 \<in> set (map snd (path_points (createArrow x1 y1 x2 y2 c)))"
      unfolding pp using iny js_sub_self by auto
  qed
  show ?thesis
    using vx vy rel minx miny unfolding ox_def oy_def by blast
qed

lemma arrow_len_coincident: "arrow_len (Fin x) (Fin y) (Fin x) (Fin y) = Fin 0"
  by (simp add: arrow_len_def Let_def fl_zero)

lemma createArrow_coincident:
  "createArrow (Fin x) (Fin y) (Fin x) (Fin y) c =
     \<lparr>vec_name = ''Arrow'', vec_x = NaN, vec_y = NaN,
      vectorPaths =
        [\<lparr>windingRule = ''NONZERO'', data = [MoveTo NaN NaN, LineTo NaN NaN]\<rparr>,
         \<lparr>windingRule = ''NONZERO'',
          data = [MoveTo NaN NaN, LineTo NaN NaN, MoveTo NaN NaN, LineTo NaN NaN]\<rparr>],
      strokes = [c], strokeWeight = 2, strokeCap = ''ROUND''\<rparr>"
  by (simp add: createArrow_def Let_def fl_zero Math_min_def)

lemma drawArrows_length:
  "length (drawArrows tier l) =
   length (filter (\<lambda>e. cardMap_of (makeCards (layout_nodes l)) (sourceId e) \<noteq> None \<and>
                        cardMap_of (makeCards (layout_nodes l)) (targetId e) \<noteq> None)
             (layout_edges l))"
proof -
  have "length (concat (map (\<lambda>e. case (m (sourceId e), m (targetId e)) of
            (Some sc, Some tc) \<Rightarrow> [f e sc tc] | _ \<Rightarrow> []) es)) =
        length (filter (\<lambda>e. m (sourceId e) \<noteq> None \<and> m (targetId e) \<noteq> None) es)"
    for m :: "string \<rightharpoonup> Card" and f :: "LayoutEdge \<Rightarrow> Card \<Rightarrow> Card \<Rightarrow> VectorNode"
      and es :: "LayoutEdge list"
    by (induction es) (auto split: option.splits)
  then show ?thesis by (simp add: drawArrows_def Let_def)
qed

text \<open>
  C2, as the code has it. \<open>createArrow\<close> has no case of its own for anchors that
  coincide: for every finite point taken as both anchors the length is 0, the quotient
  is \<^verbatim>\<open>0 / 0\<close>, that is \<^verbatim>\<open>NaN\<close>, and the position and every path coordinate of the
  returned arrow are \<^verbatim>\<open>NaN\<close>; the composer makes one arrow for every edge whose two
  cards exist, whatever the anchors are.
\<close>

theorem createArrow_coincident_anchors:
  "arrow_len (Fin x) (Fin y) (Fin x) (Fin y) = Fin 0 \<and>
   js_div (Fin 0) (Fin 0) = NaN \<and>
   vec_x (createArrow (Fin x) (Fin y) (Fin x) (Fin y) c) = NaN \<and>
   vec_y (createArrow (Fin x) (Fin y) (Fin x) (Fin y) c) = NaN \<and>
   path_points (createArrow (Fin x) (Fin y) (Fin x) (Fin y) c) = replicate 6 (NaN, NaN) \<and>
   length (drawArrows tier l) =
     length (filter (\<lambda>e. cardMap_of (makeCards (layout_nodes l)) (sourceId e) \<noteq> None \<and>
                          cardMap_of (makeCards (layout_nodes l)) (targetId e) \<noteq> None)
               (layout_edges l))"
  using arrow_len_coincident[of x y] drawArrows_length[of tier l]
  by (simp add: createArrow_coincident path_points_def numeral_eq_Suc)

text \<open>
  The arrow from \<open>(0, 0)\<close> to \<open>(3, 4)\<close> and the arrow between the same anchors moved
  by \<open>(1000, -50)\<close>, operation by operation.
\<close>

lemma step_1: "js_sub (Fin 3) (Fin 0) = Fin 3"
  by (simp only: js_sub.simps)
     (rule fl_eval[where e = "1" and m = "6755399441055744"]; simp add: pow2_def round_half_even_def)

lemma step_2: "js_sub (Fin 4) (Fin 0) = Fin 4"
  by (simp only: js_sub.simps)
     (rule fl_eval[where e = "2" and m = "4503599627370496"]; simp add: pow2_def round_half_even_def)

lemma step_3: "js_mul (Fin 3) (Fin 3) = Fin 9"
  by (simp only: js_mul.simps)
     (rule fl_eval[where e = "3" and m = "5066549580791808"]; simp add: pow2_def round_half_even_def)

lemma step_4: "js_mul (Fin 4) (Fin 4) = Fin 16"
  by (simp only: js_mul.simps)
     (rule fl_eval[where e = "4" and m = "4503599627370496"]; simp add: pow2_def round_half_even_def)

lemma step_5: "js_add (Fin 9) (Fin 16) = Fin 25"
  by (simp only: js_add.simps)
     (rule fl_eval[where e = "4" and m = "7036874417766400"]; simp add: pow2_def round_half_even_def)

lemma step_6: "Math_sqrt (Fin 25) = Fin 5"
  by (simp add: fl_exact real_sqrt_unique[of 5 25])

lemma step_7: "js_div (Fin 3) (Fin 5) = Fin (5404319552844595 / 9007199254740992)"
  by (subst js_div_Fin)
     (simp, (rule fl_eval[where e = "- 1" and m = "5404319552844595"]; simp add: pow2_def round_half_even_def))

lemma step_8: "js_div (Fin 4) (Fin 5) = Fin (3602879701896397 / 4503599627370496)"
  by (subst js_div_Fin)
     (simp, (rule fl_eval[where e = "- 1" and m = "7205759403792794"]; simp add: pow2_def round_half_even_def))

lemma step_9: "js_mul (Fin (5404319552844595 / 9007199254740992)) (Fin 8) = Fin (5404319552844595 / 1125899906842624)"
  by (simp only: js_mul.simps)
     (rule fl_eval[where e = "2" and m = "5404319552844595"]; simp add: pow2_def round_half_even_def)

lemma step_10: "js_add (Fin 0) (Fin (5404319552844595 / 1125899906842624)) = Fin (5404319552844595 / 1125899906842624)"
  by (simp only: js_add.simps)
     (rule fl_eval[where e = "2" and m = "5404319552844595"]; simp add: pow2_def round_half_even_def)

lemma step_11: "js_mul (Fin (3602879701896397 / 4503599627370496)) (Fin 8) = Fin (3602879701896397 / 562949953421312)"
  by (simp only: js_mul.simps)
     (rule fl_eval[where e = "2" and m = "7205759403792794"]; simp add: pow2_def round_half_even_def)

lemma step_12: "js_add (Fin 0) (Fin (3602879701896397 / 562949953421312)) = Fin (3602879701896397 / 562949953421312)"
  by (simp only: js_add.simps)
     (rule fl_eval[where e = "2" and m = "7205759403792794"]; simp add: pow2_def round_half_even_def)

lemma step_13: "js_sub (Fin 3) (Fin (5404319552844595 / 1125899906842624)) = Fin (- (2026619832316723 / 1125899906842624))"
  by (simp only: js_sub.simps)
     (rule fl_eval[where e = "0" and m = "- 8106479329266892"]; simp add: pow2_def round_half_even_def)

lemma step_14: "js_sub (Fin 4) (Fin (3602879701896397 / 562949953421312)) = Fin (- (1351079888211149 / 562949953421312))"
  by (simp only: js_sub.simps)
     (rule fl_eval[where e = "1" and m = "- 5404319552844596"]; simp add: pow2_def round_half_even_def)

lemma step_15: "js_mul (Fin (5404319552844595 / 9007199254740992)) (Fin 10) = Fin 6"
  by (simp only: js_mul.simps)
     (rule fl_eval[where e = "2" and m = "6755399441055744"]; simp add: pow2_def round_half_even_def)

lemma step_16: "js_sub (Fin (- (2026619832316723 / 1125899906842624))) (Fin 6) = Fin (- (8782019273372467 / 1125899906842624))"
  by (simp only: js_sub.simps)
     (rule fl_eval[where e = "2" and m = "- 8782019273372467"]; simp add: pow2_def round_half_even_def)

lemma step_17: "js_mul (Fin (3602879701896397 / 4503599627370496)) (Fin 10) = Fin 8"
  by (simp only: js_mul.simps)
     (rule fl_eval[where e = "3" and m = "4503599627370496"]; simp add: pow2_def round_half_even_def)

lemma step_18: "js_mul (Fin 8) (Fin 0.5) = Fin 4"
  by (simp only: js_mul.simps)
     (rule fl_eval[where e = "2" and m = "4503599627370496"]; simp add: pow2_def round_half_even_def)

lemma step_19: "js_sub (Fin (- (8782019273372467 / 1125899906842624))) (Fin 4) = Fin (- (3321404725185741 / 281474976710656))"
  by (simp only: js_sub.simps)
     (rule fl_eval[where e = "3" and m = "- 6642809450371482"]; simp add: pow2_def round_half_even_def)

lemma step_20: "js_sub (Fin (- (1351079888211149 / 562949953421312))) (Fin 8) = Fin (- (5854679515581645 / 562949953421312))"
  by (simp only: js_sub.simps)
     (rule fl_eval[where e = "3" and m = "- 5854679515581645"]; simp add: pow2_def round_half_even_def)

lemma step_21: "js_mul (Fin 6) (Fin 0.5) = Fin 3"
  by (simp only: js_mul.simps)
     (rule fl_eval[where e = "1" and m = "6755399441055744"]; simp add: pow2_def round_half_even_def)

lemma step_22: "js_add (Fin (- (5854679515581645 / 562949953421312))) (Fin 3) = Fin (- (4165829655317709 / 562949953421312))"
  by (simp only: js_add.simps)
     (rule fl_eval[where e = "2" and m = "- 8331659310635418"]; simp add: pow2_def round_half_even_def)

lemma step_23: "js_add (Fin (- (8782019273372467 / 1125899906842624))) (Fin 4) = Fin (- (4278419646001971 / 1125899906842624))"
  by (simp only: js_add.simps)
     (rule fl_eval[where e = "1" and m = "- 8556839292003942"]; simp add: pow2_def round_half_even_def)

lemma step_24: "js_sub (Fin (- (5854679515581645 / 562949953421312))) (Fin 3) = Fin (- (7543529375845581 / 562949953421312))"
  by (simp only: js_sub.simps)
     (rule fl_eval[where e = "3" and m = "- 7543529375845581"]; simp add: pow2_def round_half_even_def)

lemma step_25: "Math_min [Fin (5404319552844595 / 1125899906842624), Fin (- (2026619832316723 / 1125899906842624)), Fin (- (3321404725185741 / 281474976710656)), Fin (- (4278419646001971 / 1125899906842624))] = Fin (- (3321404725185741 / 281474976710656))"
  by (simp add: Math_min_def)

lemma step_26: "Math_min [Fin (3602879701896397 / 562949953421312), Fin (- (1351079888211149 / 562949953421312)), Fin (- (4165829655317709 / 562949953421312)), Fin (- (7543529375845581 / 562949953421312))] = Fin (- (7543529375845581 / 562949953421312))"
  by (simp add: Math_min_def)

lemma step_27: "js_sub (Fin (5404319552844595 / 1125899906842624)) (Fin (- (3321404725185741 / 281474976710656))) = Fin (2336242306698445 / 140737488355328)"
  by (simp only: js_sub.simps)
     (rule fl_eval[where e = "4" and m = "4672484613396890"]; simp add: pow2_def round_half_even_def)

lemma step_28: "js_sub (Fin (3602879701896397 / 562949953421312)) (Fin (- (7543529375845581 / 562949953421312))) = Fin (5573204538870989 / 281474976710656)"
  by (simp only: js_sub.simps)
     (rule fl_eval[where e = "4" and m = "5573204538870989"]; simp add: pow2_def round_half_even_def)

lemma step_29: "js_sub (Fin (- (2026619832316723 / 1125899906842624))) (Fin (- (3321404725185741 / 281474976710656))) = Fin 10"
  by (simp only: js_sub.simps)
     (rule fl_eval[where e = "3" and m = "5629499534213120"]; simp add: pow2_def round_half_even_def)

lemma step_30: "js_sub (Fin (- (1351079888211149 / 562949953421312))) (Fin (- (7543529375845581 / 562949953421312))) = Fin 11"
  by (simp only: js_sub.simps)
     (rule fl_eval[where e = "3" and m = "6192449487634432"]; simp add: pow2_def round_half_even_def)

lemma step_31: "js_sub (Fin (- (3321404725185741 / 281474976710656))) (Fin (- (3321404725185741 / 281474976710656))) = Fin 0"
  by (simp add: fl_zero)

lemma step_32: "js_sub (Fin (- (4165829655317709 / 562949953421312))) (Fin (- (7543529375845581 / 562949953421312))) = Fin 6"
  by (simp only: js_sub.simps)
     (rule fl_eval[where e = "2" and m = "6755399441055744"]; simp add: pow2_def round_half_even_def)

lemma step_33: "js_sub (Fin (- (4278419646001971 / 1125899906842624))) (Fin (- (3321404725185741 / 281474976710656))) = Fin 8"
  by (simp only: js_sub.simps)
     (rule fl_eval[where e = "3" and m = "4503599627370496"]; simp add: pow2_def round_half_even_def)

lemma step_34: "js_sub (Fin (- (7543529375845581 / 562949953421312))) (Fin (- (7543529375845581 / 562949953421312))) = Fin 0"
  by (simp add: fl_zero)

lemma step_35: "js_sub (Fin 1003) (Fin 1000) = Fin 3"
  by (simp only: js_sub.simps)
     (rule fl_eval[where e = "1" and m = "6755399441055744"]; simp add: pow2_def round_half_even_def)

lemma step_36: "js_sub (Fin (- 46)) (Fin (- 50)) = Fin 4"
  by (simp only: js_sub.simps)
     (rule fl_eval[where e = "2" and m = "4503599627370496"]; simp add: pow2_def round_half_even_def)

lemma step_37: "js_add (Fin 1000) (Fin (5404319552844595 / 1125899906842624)) = Fin (4419157134357299 / 4398046511104)"
  by (simp only: js_add.simps)
     (rule fl_eval[where e = "9" and m = "8838314268714598"]; simp add: pow2_def round_half_even_def)

lemma step_38: "js_add (Fin (- 50)) (Fin (3602879701896397 / 562949953421312)) = Fin (- (6136154492292301 / 140737488355328))"
  by (simp only: js_add.simps)
     (rule fl_eval[where e = "5" and m = "- 6136154492292301"]; simp add: pow2_def round_half_even_def)

lemma step_39: "js_sub (Fin 1003) (Fin (5404319552844595 / 1125899906842624)) = Fin (4390130027384013 / 4398046511104)"
  by (simp only: js_sub.simps)
     (rule fl_eval[where e = "9" and m = "8780260054768026"]; simp add: pow2_def round_half_even_def)

lemma step_40: "js_sub (Fin (- 46)) (Fin (3602879701896397 / 562949953421312)) = Fin (- (7374644389819187 / 140737488355328))"
  by (simp only: js_sub.simps)
     (rule fl_eval[where e = "5" and m = "- 7374644389819187"]; simp add: pow2_def round_half_even_def)

lemma step_41: "js_sub (Fin (4390130027384013 / 4398046511104)) (Fin 6) = Fin (4363741748317389 / 4398046511104)"
  by (simp only: js_sub.simps)
     (rule fl_eval[where e = "9" and m = "8727483496634778"]; simp add: pow2_def round_half_even_def)

lemma step_42: "js_sub (Fin (4363741748317389 / 4398046511104)) (Fin 4) = Fin (4346149562272973 / 4398046511104)"
  by (simp only: js_sub.simps)
     (rule fl_eval[where e = "9" and m = "8692299124545946"]; simp add: pow2_def round_half_even_def)

lemma step_43: "js_sub (Fin (- (7374644389819187 / 140737488355328))) (Fin 8) = Fin (- (8500544296661811 / 140737488355328))"
  by (simp only: js_sub.simps)
     (rule fl_eval[where e = "5" and m = "- 8500544296661811"]; simp add: pow2_def round_half_even_def)

lemma step_44: "js_add (Fin (- (8500544296661811 / 140737488355328))) (Fin 3) = Fin (- (8078331831595827 / 140737488355328))"
  by (simp only: js_add.simps)
     (rule fl_eval[where e = "5" and m = "- 8078331831595827"]; simp add: pow2_def round_half_even_def)

lemma step_45: "js_add (Fin (4363741748317389 / 4398046511104)) (Fin 4) = Fin (4381333934361805 / 4398046511104)"
  by (simp only: js_add.simps)
     (rule fl_eval[where e = "9" and m = "8762667868723610"]; simp add: pow2_def round_half_even_def)

lemma step_46: "js_sub (Fin (- (8500544296661811 / 140737488355328))) (Fin 3) = Fin (- (8922756761727795 / 140737488355328))"
  by (simp only: js_sub.simps)
     (rule fl_eval[where e = "5" and m = "- 8922756761727795"]; simp add: pow2_def round_half_even_def)

lemma step_47: "Math_min [Fin (4419157134357299 / 4398046511104), Fin (4390130027384013 / 4398046511104), Fin (4346149562272973 / 4398046511104), Fin (4381333934361805 / 4398046511104)] = Fin (4346149562272973 / 4398046511104)"
  by (simp add: Math_min_def)

lemma step_48: "Math_min [Fin (- (6136154492292301 / 140737488355328)), Fin (- (7374644389819187 / 140737488355328)), Fin (- (8078331831595827 / 140737488355328)), Fin (- (8922756761727795 / 140737488355328))] = Fin (- (8922756761727795 / 140737488355328))"
  by (simp add: Math_min_def)

lemma step_49: "js_sub (Fin (4419157134357299 / 4398046511104)) (Fin (4346149562272973 / 4398046511104)) = Fin (36503786042163 / 2199023255552)"
  by (simp only: js_sub.simps)
     (rule fl_eval[where e = "4" and m = "4672484613396864"]; simp add: pow2_def round_half_even_def)

lemma step_50: "js_sub (Fin (- (6136154492292301 / 140737488355328))) (Fin (- (8922756761727795 / 140737488355328))) = Fin (1393301134717747 / 70368744177664)"
  by (simp only: js_sub.simps)
     (rule fl_eval[where e = "4" and m = "5573204538870988"]; simp add: pow2_def round_half_even_def)

lemma step_51: "js_sub (Fin (4390130027384013 / 4398046511104)) (Fin (4346149562272973 / 4398046511104)) = Fin 10"
  by (simp only: js_sub.simps)
     (rule fl_eval[where e = "3" and m = "5629499534213120"]; simp add: pow2_def round_half_even_def)

lemma step_52: "js_sub (Fin (- (7374644389819187 / 140737488355328))) (Fin (- (8922756761727795 / 140737488355328))) = Fin 11"
  by (simp only: js_sub.simps)
     (rule fl_eval[where e = "3" and m = "6192449487634432"]; simp add: pow2_def round_half_even_def)

lemma step_53: "js_sub (Fin (4346149562272973 / 4398046511104)) (Fin (4346149562272973 / 4398046511104)) = Fin 0"
  by (simp add: fl_zero)

lemma step_54: "js_sub (Fin (- (8078331831595827 / 140737488355328))) (Fin (- (8922756761727795 / 140737488355328))) = Fin 6"
  by (simp only: js_sub.simps)
     (rule fl_eval[where e = "2" and m = "6755399441055744"]; simp add: pow2_def round_half_even_def)

lemma step_55: "js_sub (Fin (4381333934361805 / 4398046511104)) (Fin (4346149562272973 / 4398046511104)) = Fin 8"
  by (simp only: js_sub.simps)
     (rule fl_eval[where e = "3" and m = "4503599627370496"]; simp add: pow2_def round_half_even_def)

lemma step_56: "js_sub (Fin (- (8922756761727795 / 140737488355328))) (Fin (- (8922756761727795 / 140737488355328))) = Fin 0"
  by (simp add: fl_zero)

lemmas arrow_steps = step_1 step_2 step_3 step_4 step_5 step_6 step_7 step_8 step_9 step_10 step_11 step_12 step_13 step_14 step_15 step_16 step_17 step_18 step_19 step_20 step_21 step_22 step_23 step_24 step_25 step_26 step_27 step_28 step_29 step_30 step_31 step_32 step_33 step_34 step_35 step_36 step_37 step_38 step_39 step_40 step_41 step_42 step_43 step_44 step_45 step_46 step_47 step_48 step_49 step_50 step_51 step_52 step_53 step_54 step_55 step_56

lemma arrow_3_4: "createArrow (Fin 0) (Fin 0) (Fin 3) (Fin 4) c =
     \<lparr>vec_name = ''Arrow'', vec_x = Fin (- (3321404725185741 / 281474976710656)), vec_y = Fin (- (7543529375845581 / 562949953421312)),
      vectorPaths =
        [\<lparr>windingRule = ''NONZERO'', data = [MoveTo (Fin (2336242306698445 / 140737488355328)) (Fin (5573204538870989 / 281474976710656)), LineTo (Fin 10) (Fin 11)]\<rparr>,
         \<lparr>windingRule = ''NONZERO'',
          data = [MoveTo (Fin 10) (Fin 11), LineTo (Fin 0) (Fin 6),
                  MoveTo (Fin 10) (Fin 11), LineTo (Fin 8) (Fin 0)]\<rparr>],
      strokes = [c], strokeWeight = 2, strokeCap = ''ROUND''\<rparr>"
  by (simp only: createArrow_def Let_def arrow_steps)

lemma arrow_3_4_moved: "createArrow (Fin 1000) (Fin (- 50)) (Fin 1003) (Fin (- 46)) c =
     \<lparr>vec_name = ''Arrow'', vec_x = Fin (4346149562272973 / 4398046511104), vec_y = Fin (- (8922756761727795 / 140737488355328)),
      vectorPaths =
        [\<lparr>windingRule = ''NONZERO'', data = [MoveTo (Fin (36503786042163 / 2199023255552)) (Fin (1393301134717747 / 70368744177664)), LineTo (Fin 10) (Fin 11)]\<rparr>,
         \<lparr>windingRule = ''NONZERO'',
          data = [MoveTo (Fin 10) (Fin 11), LineTo (Fin 0) (Fin 6),
                  MoveTo (Fin 10) (Fin 11), LineTo (Fin 8) (Fin 0)]\<rparr>],
      strokes = [c], strokeWeight = 2, strokeCap = ''ROUND''\<rparr>"
  by (simp only: createArrow_def Let_def arrow_steps)

lemma sqrt_14400: "sqrt 14400 = 120"
  by (rule real_sqrt_unique) simp_all

lemma demo_arrow_points:
  "arrowPoints (Fin 364) (Fin 172) (Fin 484) (Fin 172) =
     [(Fin 372, Fin 172), (Fin 476, Fin 172), (Fin 466, Fin 177), (Fin 466, Fin 167)]"
  by (simp add: arrowPoints_def Let_def fl_exact sqrt_14400)

lemma demo_arrow_eval: "createArrow (Fin 364) (Fin 172) (Fin 484) (Fin 172) neutral = demo_arrow"
  by (simp add: createArrow_def Let_def fl_exact sqrt_14400 Math_min_def demo_arrow_def)

theorem createArrow_origin_is_minimum_witness:
  "arrowPoints (Fin 364) (Fin 172) (Fin 484) (Fin 172) =
     [(Fin 372, Fin 172), (Fin 476, Fin 172), (Fin 466, Fin 177), (Fin 466, Fin 167)] \<and>
   createArrow (Fin 364) (Fin 172) (Fin 484) (Fin 172) neutral = demo_arrow \<and>
   vec_x demo_arrow = Fin 372 \<and> vec_y demo_arrow = Fin 167 \<and>
   path_points demo_arrow =
     [(Fin 0, Fin 5), (Fin 104, Fin 5), (Fin 104, Fin 5), (Fin 94, Fin 10),
      (Fin 104, Fin 5), (Fin 94, Fin 0)] \<and>
   Math_min (map fst (path_points demo_arrow)) = Fin 0 \<and>
   Math_min (map snd (path_points demo_arrow)) = Fin 0"
  using createArrow_origin_is_minimum [OF demo_arrow_points, of neutral]
    demo_arrow_points
  by (simp add: demo_arrow_eval demo_arrow_def path_points_def fl_exact Math_min_def)

text \<open>
  Two cards that touch give the same point for both anchors: the composer adds the
  arrow for the edge, and its position and path coordinates are \<^verbatim>\<open>NaN\<close>.
\<close>

lemma touching_cards:
  "makeCards (layout_nodes touching_layout) =
     [(''1:2'', \<lparr>card_x = Fin 40, card_y = Fin 40, card_width = Fin 324, card_height = Fin 264\<rparr>),
      (''1:3'', \<lparr>card_x = Fin 364, card_y = Fin 40, card_width = Fin 324, card_height = Fin 264\<rparr>)]"
  by (simp add: touching_layout_def makeCards_def fold_min_def coord_def Math_min_def fl_exact
      Let_def THUMB_W_def THUMB_H_def PADDING_def CARD_PADDING_def)

lemma touching_arrows:
  "drawArrows TIERS_free touching_layout =
     [createArrow (Fin 364) (Fin 172) (Fin 364) (Fin 172) neutral]"
  unfolding drawArrows_def Let_def touching_cards
  by (simp add: touching_layout_def cardMap_of_def edgeColor_def TIERS_free_def fl_exact)

theorem coincident_anchors_counterexample:
  "drawArrows TIERS_free touching_layout =
     [createArrow (Fin 364) (Fin 172) (Fin 364) (Fin 172) neutral] \<and>
   arrow_len (Fin 364) (Fin 172) (Fin 364) (Fin 172) = Fin 0 \<and>
   vec_x (createArrow (Fin 364) (Fin 172) (Fin 364) (Fin 172) neutral) = NaN \<and>
   vec_y (createArrow (Fin 364) (Fin 172) (Fin 364) (Fin 172) neutral) = NaN \<and>
   path_points (createArrow (Fin 364) (Fin 172) (Fin 364) (Fin 172) neutral) =
     [(NaN, NaN), (NaN, NaN), (NaN, NaN), (NaN, NaN), (NaN, NaN), (NaN, NaN)]"
  by (simp add: touching_arrows arrow_len_coincident createArrow_coincident path_points_def)

lemma tiny_dx: "js_sub (Fin (1 / 2 ^ 600)) (Fin 0) = Fin (1 / 2 ^ 600)"
  by (simp only: js_sub.simps)
     (rule fl_eval[where e = "- 600" and m = "2 ^ 52"]; simp add: pow2_def round_half_even_def)

lemma tiny_square: "js_mul (Fin (1 / 2 ^ 600)) (Fin (1 / 2 ^ 600)) = Fin 0"
  by (simp only: js_mul.simps)
     (rule fl_eval[where e = "- 1200" and m = 0]; simp add: pow2_def round_half_even_def)

lemma tiny_arrow:
  "arrow_len (Fin 0) (Fin 0) (Fin (1 / 2 ^ 600)) (Fin 0) = Fin 0 \<and>
   vec_x (createArrow (Fin 0) (Fin 0) (Fin (1 / 2 ^ 600)) (Fin 0) c) = NaN \<and>
   vec_y (createArrow (Fin 0) (Fin 0) (Fin (1 / 2 ^ 600)) (Fin 0) c) = NaN"
  unfolding createArrow_def arrow_len_def Let_def tiny_dx tiny_square
  by (simp add: fl_zero Math_min_def)

text \<open>
  The anchors \<open>(0, 0)\<close>, \<open>(3, 4)\<close> and their exact translates by \<open>(1000, -50)\<close>
  give different path data: the first path coordinate is \<open>(16.6, 19.8)\<close> for the
  one and \<open>(16.59999999999991, 19.799999999999997)\<close> for the other. And two anchors
  that differ by \<open>2 ^ -600\<close> give an arrow at \<^verbatim>\<open>NaN\<close>, the square of their distance
  being rounded to 0.
\<close>

theorem createArrow_translation_counterexample:
  "js_add (Fin 0) (Fin 1000) = Fin 1000 \<and> js_add (Fin 3) (Fin 1000) = Fin 1003 \<and>
   js_add (Fin 0) (Fin (- 50)) = Fin (- 50) \<and> js_add (Fin 4) (Fin (- 50)) = Fin (- 46) \<and>
   path_points (createArrow (Fin 0) (Fin 0) (Fin 3) (Fin 4) neutral) ! 0 =
     (Fin (2336242306698445 / 140737488355328), Fin (5573204538870989 / 281474976710656)) \<and>
   path_points (createArrow (Fin 1000) (Fin (- 50)) (Fin 1003) (Fin (- 46)) neutral) ! 0 =
     (Fin (36503786042163 / 2199023255552), Fin (1393301134717747 / 70368744177664)) \<and>
   vectorPaths (createArrow (Fin 1000) (Fin (- 50)) (Fin 1003) (Fin (- 46)) neutral) \<noteq>
   vectorPaths (createArrow (Fin 0) (Fin 0) (Fin 3) (Fin 4) neutral) \<and>
   vec_x (createArrow (Fin 0) (Fin 0) (Fin (1 / 2 ^ 600)) (Fin 0) neutral) = NaN"
  using tiny_arrow[of neutral]
  by (simp add: arrow_3_4 arrow_3_4_moved path_points_def fl_exact)

theorem createArrow_coincident_anchors_witness:
  "vec_x (createArrow (Fin 364) (Fin 172) (Fin 364) (Fin 172) neutral) = NaN \<and>
   path_points (createArrow (Fin 364) (Fin 172) (Fin 364) (Fin 172) neutral) =
     [(NaN, NaN), (NaN, NaN), (NaN, NaN), (NaN, NaN), (NaN, NaN), (NaN, NaN)] \<and>
   length (drawArrows TIERS_free spaced_layout) = 1"
proof -
  have cards: "cardMap_of (makeCards (layout_nodes spaced_layout)) ''1:2'' \<noteq> None"
    "cardMap_of (makeCards (layout_nodes spaced_layout)) ''1:3'' \<noteq> None"
    "cardMap_of (makeCards (layout_nodes spaced_layout)) ''9:9'' = None"
    by (simp_all add: spaced_layout_def makeCards_def cardMap_of_def Let_def)
  have es: "layout_edges spaced_layout =
        [\<lparr>sourceId = ''1:2'', targetId = ''1:3'', trigger = ''ON_CLICK'',
          action = ''NAVIGATE'', points = []\<rparr>,
         \<lparr>sourceId = ''1:2'', targetId = ''9:9'', trigger = ''ON_CLICK'',
          action = ''NAVIGATE'', points = []\<rparr>]"
    by (simp add: spaced_layout_def)
  show ?thesis
    using createArrow_coincident_anchors [of 364 172 neutral TIERS_free spaced_layout] cards
    by (simp add: es numeral_eq_Suc)
qed

section \<open>Properties of the scan request\<close>

lemma length_makeGraph: "length (nodes (makeGraph k)) = k"
  by (simp add: makeGraph_def)

lemma show_nat_digit: "n < 10 \<Longrightarrow> show_nat n = [''0123456789'' ! n]"
  by (simp add: show_nat.simps[of n])
lemma show_nat_step: "10 \<le> n \<Longrightarrow> show_nat n = show_nat (n div 10) @ [''0123456789'' ! (n mod 10)]"
  by (simp add: show_nat.simps[of n])
lemma show_nat_10: "show_nat 10 = ''10''" by (simp add: show_nat_digit show_nat_step)
lemma show_nat_11: "show_nat 11 = ''11''" by (simp add: show_nat_digit show_nat_step)
lemma show_nat_0: "show_nat 0 = ''0''" by (simp add: show_nat_digit show_nat_step)

lemma limit_message_contains:
  "sublist (show_limit limit) (limit_message limit found) \<and>
   sublist (show_nat found) (limit_message limit found)"
proof -
  have "sublist (show_limit limit)
          (''Free tier supports up to '' @ show_limit limit @
            ('' screens. Found '' @ show_nat found @ ''. Upgrade to Pro for unlimited.''))"
    by (rule sublist_appendI)
  moreover have "sublist (show_nat found)
          ((''Free tier supports up to '' @ show_limit limit @ '' screens. Found '') @
            show_nat found @ ''. Upgrade to Pro for unlimited.'')"
    by (rule sublist_appendI)
  ultimately show ?thesis by (simp add: limit_message_def)
qed

text \<open>
  Under the pro tier a scan that finds no node is not accepted either: it is answered
  with the error for an empty result, as under the free tier.
\<close>

theorem pro_empty_scan_counterexample:
  "length (nodes (makeGraph 0)) = 0 \<and>
   scan_reply TIERS_pro (makeGraph 0) =
     [postMessage (status_msg ''Scanning prototype connections...''),
      postMessage (error_msg
        ''No prototype connections found on this page. Add some prototype links between frames first.'')] \<and>
   onmessage_scan TIERS_pro lonely_page demo_lookup =
     [postMessage (status_msg ''Scanning prototype connections...''),
      postMessage (error_msg
        ''No prototype connections found on this page. Add some prototype links between frames first.'')]"
  by (simp add: onmessage_scan_def scan_reply_def makeGraph_def scan_defs demo_defs)

text \<open>
  C6, as the code has it. The scan case answers with \<open>scan_reply\<close> of the scanned
  graph. A scan whose graph is empty is answered with the error for an empty result
  under every tier. A scan whose graph is not empty and has at most \<open>maxScreens\<close>
  nodes is answered with the graph; a graph with more nodes is answered with an error
  and nothing else, and the message contains the limit and the number found (\<open>10\<close>
  and \<open>11\<close> for eleven nodes under the free tier, ten nodes being accepted there);
  under the pro tier no number of nodes exceeds the limit, and every graph with a node
  is answered with the graph.
\<close>

theorem scan_tier_gating:
  "onmessage_scan tier page getNodeById =
     scan_reply tier (scanPrototypeConnections page getNodeById) \<and>
   (nodes graph \<noteq> [] \<and> enat (length (nodes graph)) \<le> maxScreens tier \<longrightarrow>
      scan_reply tier graph =
        [postMessage (status_msg ''Scanning prototype connections...''),
         postMessage (graph_msg graph),
         notify (''Found '' @ show_nat (length (nodes graph)) @ '' screens, '' @
                 show_nat (length (edges graph)) @ '' connections'')]) \<and>
   (nodes graph = [] \<longrightarrow>
      scan_reply tier graph =
        [postMessage (status_msg ''Scanning prototype connections...''),
         postMessage (error_msg
           ''No prototype connections found on this page. Add some prototype links between frames first.'')]) \<and>
   (enat (length (nodes graph)) > maxScreens tier \<longrightarrow>
      scan_reply tier graph =
        [postMessage (status_msg ''Scanning prototype connections...''),
         postMessage (error_msg (limit_message (maxScreens tier) (length (nodes graph))))] \<and>
      sublist (show_limit (maxScreens tier))
        (limit_message (maxScreens tier) (length (nodes graph))) \<and>
      sublist (show_nat (length (nodes graph)))
        (limit_message (maxScreens tier) (length (nodes graph)))) \<and>
   (length (nodes graph) = 10 \<longrightarrow>
      scan_reply TIERS_free graph =
        [postMessage (status_msg ''Scanning prototype connections...''),
         postMessage (graph_msg graph),
         notify (''Found 10 screens, '' @ show_nat (length (edges graph)) @ '' connections'')]) \<and>
   (length (nodes graph) = 11 \<longrightarrow>
      scan_reply TIERS_free graph =
        [postMessage (status_msg ''Scanning prototype connections...''),
         postMessage (error_msg (limit_message 10 11))] \<and>
      sublist ''11'' (limit_message 10 11) \<and> sublist ''10'' (limit_message 10 11)) \<and>
   \<not> enat (length (nodes graph)) > maxScreens TIERS_pro \<and>
   (nodes graph \<noteq> [] \<longrightarrow>
      scan_reply TIERS_pro graph =
        [postMessage (status_msg ''Scanning prototype connections...''),
         postMessage (graph_msg graph),
         notify (''Found '' @ show_nat (length (nodes graph)) @ '' screens, '' @
                 show_nat (length (edges graph)) @ '' connections'')])"
proof -
  have accept: "scan_reply t graph =
        [postMessage (status_msg ''Scanning prototype connections...''),
         postMessage (graph_msg graph),
         notify (''Found '' @ show_nat (length (nodes graph)) @ '' screens, '' @
                 show_nat (length (edges graph)) @ '' connections'')]"
    if "nodes graph \<noteq> []" "enat (length (nodes graph)) \<le> maxScreens t" for t
    using that by (simp add: scan_reply_def)
  have reject: "scan_reply t graph =
        [postMessage (status_msg ''Scanning prototype connections...''),
         postMessage (error_msg (limit_message (maxScreens t) (length (nodes graph))))]"
    if "enat (length (nodes graph)) > maxScreens t" for t
  proof -
    have "length (nodes graph) \<noteq> 0"
      using that by (cases "maxScreens t") (auto simp: zero_enat_def[symmetric])
    then show ?thesis using that by (simp add: scan_reply_def)
  qed
  have free10: "maxScreens TIERS_free = 10" by (simp add: TIERS_free_def)
  have ten: "scan_reply TIERS_free graph =
        [postMessage (status_msg ''Scanning prototype connections...''),
         postMessage (graph_msg graph),
         notify (''Found 10 screens, '' @ show_nat (length (edges graph)) @ '' connections'')]"
    if "length (nodes graph) = 10"
  proof -
    have "nodes graph \<noteq> []" using that by auto
    moreover have "enat (length (nodes graph)) \<le> maxScreens TIERS_free"
      using that by (simp add: free10 numeral_eq_enat)
    ultimately show ?thesis using accept[of TIERS_free] that show_nat_10 by simp
  qed
  have eleven: "scan_reply TIERS_free graph =
        [postMessage (status_msg ''Scanning prototype connections...''),
         postMessage (error_msg (limit_message 10 11))]"
    if "length (nodes graph) = 11"
  proof -
    have "enat (length (nodes graph)) > maxScreens TIERS_free"
      using that by (simp add: free10 numeral_eq_enat)
    then show ?thesis using reject[of TIERS_free] that by (simp add: free10)
  qed
  have contains: "sublist ''11'' (limit_message 10 11) \<and> sublist ''10'' (limit_message 10 11)"
    using limit_message_contains[of 10 11]
    by (simp add: show_limit_def numeral_eq_enat show_nat_10 show_nat_11)
  have pro: "maxScreens TIERS_pro = \<infinity>" by (simp add: TIERS_pro_def)
  have notover: "\<not> enat (length (nodes graph)) > maxScreens TIERS_pro"
    by (simp add: pro)
  have propart: "scan_reply TIERS_pro graph =
        [postMessage (status_msg ''Scanning prototype connections...''),
         postMessage (graph_msg graph),
         notify (''Found '' @ show_nat (length (nodes graph)) @ '' screens, '' @
                 show_nat (length (edges graph)) @ '' connections'')]"
    if "nodes graph \<noteq> []"
    using that accept[of TIERS_pro] by (simp add: pro)
  have empty: "scan_reply tier graph =
        [postMessage (status_msg ''Scanning prototype connections...''),
         postMessage (error_msg
           ''No prototype connections found on this page. Add some prototype links between frames first.'')]"
    if "nodes graph = []"
    using that by (simp add: scan_reply_def)
  have handler: "onmessage_scan tier page getNodeById =
     scan_reply tier (scanPrototypeConnections page getNodeById)"
    by (simp add: onmessage_scan_def)
  show ?thesis
    using handler empty accept[of tier] reject[of tier] ten eleven contains
      limit_message_contains[of "maxScreens tier" "length (nodes graph)"] notover propart
    by blast
qed

theorem scan_tier_gating_witness:
  "length (nodes (makeGraph 10)) = 10 \<and>
   scan_reply TIERS_free (makeGraph 10) =
     [postMessage (status_msg ''Scanning prototype connections...''),
      postMessage (graph_msg (makeGraph 10)),
      notify ''Found 10 screens, 0 connections''] \<and>
   length (nodes (makeGraph 11)) = 11 \<and>
   scan_reply TIERS_free (makeGraph 11) =
     [postMessage (status_msg ''Scanning prototype connections...''),
      postMessage (error_msg
        ''Free tier supports up to 10 screens. Found 11. Upgrade to Pro for unlimited.'')] \<and>
   sublist ''11'' ''Free tier supports up to 10 screens. Found 11. Upgrade to Pro for unlimited.'' \<and>
   sublist ''10'' ''Free tier supports up to 10 screens. Found 11. Upgrade to Pro for unlimited.'' \<and>
   scan_reply TIERS_pro (makeGraph 11) =
     [postMessage (status_msg ''Scanning prototype connections...''),
      postMessage (graph_msg (makeGraph 11)),
      notify ''Found 11 screens, 0 connections'']"
proof -
  have msg: "limit_message 10 11 =
      ''Free tier supports up to 10 screens. Found 11. Upgrade to Pro for unlimited.''"
    by (simp add: limit_message_def show_limit_def numeral_eq_enat show_nat_10 show_nat_11)
  have e: "edges (makeGraph k) = []" for k by (simp add: makeGraph_def)
  have ne: "nodes (makeGraph 11) \<noteq> []"
    using length_makeGraph[of 11] by (metis length_0_conv zero_neq_numeral)
  show ?thesis
    using scan_tier_gating [of TIERS_free demo_page demo_lookup "makeGraph 10"]
          scan_tier_gating [of TIERS_free demo_page demo_lookup "makeGraph 11"] ne
    by (simp add: length_makeGraph msg e show_nat_0 show_nat_11)
qed

end
